theory Spec2Isabelle
  imports Main
begin

section \<open>JavaScript values\<close>

text \<open>
  The values that cross the bridge and the values the absent modules hand back. A number
  is kept by its integer value, with \<open>NaN\<close> apart (a number with a fraction is not zero,
  and nothing here tells it from a non-zero integer); a function is known by the identity
  of its function object, which is all that \<open>removeListener\<close> compares.
\<close>

datatype jsval =
    JUndefined
  | JNull
  | JBool bool
  | JNum int
  | JNaN
  | JBigInt int
  | JStr string
  | JArr "jsval list"
  | JObj "(string \<times> jsval) list"
  | JFun nat

text \<open>What \<open>if (v)\<close> tests.\<close>

fun truthy :: "jsval \<Rightarrow> bool" where
  "truthy JUndefined = False"
| "truthy JNull = False"
| "truthy (JBool b) = b"
| "truthy (JNum n) = (n \<noteq> 0)"
| "truthy JNaN = False"
| "truthy (JBigInt n) = (n \<noteq> 0)"
| "truthy (JStr s) = (s \<noteq> [])"
| "truthy (JArr xs) = True"
| "truthy (JObj kvs) = True"
| "truthy (JFun f) = True"

text \<open>The first parameter of an arrow function: \<open>undefined\<close> when the caller passed none.\<close>

fun param0 :: "jsval list \<Rightarrow> jsval" where
  "param0 [] = JUndefined"
| "param0 (a # as) = a"

section \<open>The preload bridge\<close>

subsection \<open>\<open>ipcRenderer\<close>\<close>

text \<open>
  The two arrow functions the bridge wraps a callback in:
  \<open>(event, x) => callback(x)\<close> and \<open>() => callback()\<close>.
\<close>

datatype arrow = Pass_first | Pass_none

text \<open>
  A function object that can sit in an emitter's listener list: a function of the page
  (\<open>JFun n\<close> seen as a listener), or the \<open>k\<close>-th arrow function the bridge created,
  with the callback it closes over. Two arrows created by two evaluations of the same
  arrow expression are two objects: they differ in \<open>k\<close>.
\<close>

datatype fnref =
    Page_fn nat
  | Arrow_fn nat arrow jsval

datatype ipc_call =
    Send string "jsval list"
  | Invoke string "jsval list"
  | On string fnref
  | RemoveListener string jsval

fun channel_of :: "ipc_call \<Rightarrow> string" where
  "channel_of (Send c as) = c"
| "channel_of (Invoke c as) = c"
| "channel_of (On c l) = c"
| "channel_of (RemoveListener c v) = c"

text \<open>
  A function the bridge returns to the page: \<open>() => ipcRenderer.removeListener(c, callback)\<close>,
  or the block that \<open>onProfilesChanged\<close> returns.
\<close>

datatype returned_fn =
    Remove_listener_fn string jsval
  | Profiles_unlisten_fn jsval

datatype retval =
    Ret_undefined
  | Ret_promise
  | Ret_emitter
  | Ret_function returned_fn
  | Ret_TypeError

text \<open>
  The renderer side: the listener list of \<open>ipcRenderer\<close> (oldest first), the number of
  arrow functions created so far, every call made on \<open>ipcRenderer\<close> (oldest first), and
  the functions handed to the page.
\<close>

record renderer =
  listeners :: "(string \<times> fnref) list"
  arrows :: nat
  trace :: "ipc_call list"
  handed :: "returned_fn list"

definition renderer0 :: renderer where
  "renderer0 = \<lparr>listeners = [], arrows = 0, trace = [], handed = []\<rparr>"

definition ipcRenderer_send :: "string \<Rightarrow> jsval list \<Rightarrow> renderer \<Rightarrow> renderer" where
  "ipcRenderer_send c as r = r\<lparr>trace := trace r @ [Send c as]\<rparr>"

definition ipcRenderer_invoke :: "string \<Rightarrow> jsval list \<Rightarrow> renderer \<Rightarrow> renderer" where
  "ipcRenderer_invoke c as r = r\<lparr>trace := trace r @ [Invoke c as]\<rparr>"

definition ipcRenderer_on :: "string \<Rightarrow> fnref \<Rightarrow> renderer \<Rightarrow> renderer" where
  "ipcRenderer_on c l r =
     r\<lparr>listeners := listeners r @ [(c, l)], trace := trace r @ [On c l]\<rparr>"

text \<open>
  \<open>removeListener\<close> of an event emitter drops the instance of the given function object
  that was added last, and nothing when there is none. Given something that is not a
  function it raises a TypeError.
\<close>

definition remove_last :: "'a \<Rightarrow> 'a list \<Rightarrow> 'a list" where
  "remove_last x xs = rev (remove1 x (rev xs))"

fun ipcRenderer_removeListener :: "string \<Rightarrow> jsval \<Rightarrow> renderer \<Rightarrow> retval \<times> renderer" where
  "ipcRenderer_removeListener c (JFun n) r =
     (Ret_emitter,
      r\<lparr>listeners := remove_last (c, Page_fn n) (listeners r),
        trace := trace r @ [RemoveListener c (JFun n)]\<rparr>)"
| "ipcRenderer_removeListener c v r =
     (Ret_TypeError, r\<lparr>trace := trace r @ [RemoveListener c v]\<rparr>)"

definition new_arrow :: "arrow \<Rightarrow> jsval \<Rightarrow> renderer \<Rightarrow> fnref \<times> renderer" where
  "new_arrow a callback r = (Arrow_fn (arrows r) a callback, r\<lparr>arrows := Suc (arrows r)\<rparr>)"

definition hand :: "returned_fn \<Rightarrow> renderer \<Rightarrow> retval \<times> renderer" where
  "hand f r = (Ret_function f, r\<lparr>handed := handed r @ [f]\<rparr>)"

subsection \<open>The object exposed as \<open>window.electron\<close>\<close>

text \<open>
  One constructor for each function of the object given to
  \<open>contextBridge.exposeInMainWorld\<close>, in the order of the source; the members of the
  nested objects \<open>singbox\<close> and \<open>logs\<close> carry the object's name. The member
  \<open>platform\<close> is a string, not a function, and makes no call.
\<close>

datatype api =
    electron_minimizeWindow
  | electron_maximizeWindow
  | electron_closeWindow
  | electron_showWindow
  | electron_quitApp
  | electron_downloadProfile
  | electron_downloadCore
  | electron_onCoreDownloadProgress
  | electron_onStatusUpdate
  | electron_openConfigDir
  | singbox_checkInstalled
  | singbox_getVersion
  | singbox_checkConfig
  | singbox_formatConfig
  | singbox_startCore
  | singbox_stopCore
  | singbox_getStatus
  | singbox_run
  | singbox_stop
  | singbox_downloadCore
  | singbox_onOutput
  | singbox_onExit
  | electron_getSingBoxVersion
  | electron_onCoreVersionUpdate
  | electron_onDownloadComplete
  | electron_removeDownloadComplete
  | electron_getProfileData
  | electron_onProfileData
  | electron_removeProfileData
  | electron_getProfileFiles
  | electron_exportProfile
  | electron_renameProfile
  | electron_deleteProfile
  | electron_openFileInEditor
  | electron_openAddProfileDialog
  | electron_onProfilesChanged
  | electron_getConfigPath
  | electron_setConfigPath
  | logs_onLogMessage
  | logs_onActivityLog
  | logs_getLogHistory
  | logs_clearLogs

definition api_list :: "api list" where
  "api_list =
    [electron_minimizeWindow, electron_maximizeWindow, electron_closeWindow,
     electron_showWindow, electron_quitApp, electron_downloadProfile, electron_downloadCore,
     electron_onCoreDownloadProgress, electron_onStatusUpdate, electron_openConfigDir,
     singbox_checkInstalled, singbox_getVersion, singbox_checkConfig, singbox_formatConfig,
     singbox_startCore, singbox_stopCore, singbox_getStatus, singbox_run, singbox_stop,
     singbox_downloadCore, singbox_onOutput, singbox_onExit, electron_getSingBoxVersion,
     electron_onCoreVersionUpdate, electron_onDownloadComplete,
     electron_removeDownloadComplete, electron_getProfileData, electron_onProfileData,
     electron_removeProfileData, electron_getProfileFiles, electron_exportProfile,
     electron_renameProfile, electron_deleteProfile, electron_openFileInEditor,
     electron_openAddProfileDialog, electron_onProfilesChanged, electron_getConfigPath,
     electron_setConfigPath, logs_onLogMessage, logs_onActivityLog, logs_getLogHistory,
     logs_clearLogs]"

text \<open>
  Calling an exposed function with the arguments \<open>args\<close>. A function declared without
  parameters ignores them; \<open>send\<close> returns \<open>undefined\<close>, \<open>invoke\<close> a promise, \<open>on\<close> the
  emitter.
\<close>

fun call :: "api \<Rightarrow> jsval list \<Rightarrow> renderer \<Rightarrow> retval \<times> renderer" where
  "call electron_minimizeWindow args r = (Ret_undefined, ipcRenderer_send ''window-minimize'' [] r)"
| "call electron_maximizeWindow args r = (Ret_undefined, ipcRenderer_send ''window-maximize'' [] r)"
| "call electron_closeWindow args r = (Ret_undefined, ipcRenderer_send ''window-close'' [] r)"
| "call electron_showWindow args r = (Ret_promise, ipcRenderer_invoke ''show-window'' [] r)"
| "call electron_quitApp args r = (Ret_promise, ipcRenderer_invoke ''quit-app'' [] r)"
| "call electron_downloadProfile args r =
     (Ret_promise, ipcRenderer_invoke ''download-profile'' [param0 args] r)"
| "call electron_downloadCore args r = (Ret_promise, ipcRenderer_invoke ''download-core'' [] r)"
| "call electron_onCoreDownloadProgress args r =
     (let callback = param0 args;
          (l, r1) = new_arrow Pass_first callback r;
          r2 = ipcRenderer_on ''core-download-progress'' l r1
      in hand (Remove_listener_fn ''core-download-progress'' callback) r2)"
| "call electron_onStatusUpdate args r =
     (let callback = param0 args;
          (l, r1) = new_arrow Pass_first callback r;
          r2 = ipcRenderer_on ''status-update'' l r1
      in hand (Remove_listener_fn ''status-update'' callback) r2)"
| "call electron_openConfigDir args r = (Ret_promise, ipcRenderer_invoke ''openConfigDir'' [] r)"
| "call singbox_checkInstalled args r =
     (Ret_promise, ipcRenderer_invoke ''singbox-check-installed'' [] r)"
| "call singbox_getVersion args r = (Ret_promise, ipcRenderer_invoke ''singbox-get-version'' [] r)"
| "call singbox_checkConfig args r =
     (Ret_promise,
      ipcRenderer_invoke ''singbox-check-config'' [JObj [(''configPath'', param0 args)]] r)"
| "call singbox_formatConfig args r =
     (Ret_promise,
      ipcRenderer_invoke ''singbox-format-config'' [JObj [(''configPath'', param0 args)]] r)"
| "call singbox_startCore args r =
     (Ret_promise, ipcRenderer_invoke ''singbox-start-core'' [param0 args] r)"
| "call singbox_stopCore args r = (Ret_promise, ipcRenderer_invoke ''singbox-stop-core'' [] r)"
| "call singbox_getStatus args r = (Ret_promise, ipcRenderer_invoke ''singbox-get-status'' [] r)"
| "call singbox_run args r =
     (Ret_promise, ipcRenderer_invoke ''singbox-run'' [JObj [(''configPath'', param0 args)]] r)"
| "call singbox_stop args r = (Ret_promise, ipcRenderer_invoke ''singbox-stop'' [] r)"
| "call singbox_downloadCore args r =
     (Ret_promise, ipcRenderer_invoke ''singbox-download-core'' [] r)"
| "call singbox_onOutput args r =
     (let callback = param0 args;
          (l, r1) = new_arrow Pass_first callback r;
          r2 = ipcRenderer_on ''singbox-output'' l r1
      in hand (Remove_listener_fn ''singbox-output'' callback) r2)"
| "call singbox_onExit args r =
     (let callback = param0 args;
          (l, r1) = new_arrow Pass_first callback r;
          r2 = ipcRenderer_on ''singbox-exit'' l r1
      in hand (Remove_listener_fn ''singbox-exit'' callback) r2)"
| "call electron_getSingBoxVersion args r =
     (Ret_promise, ipcRenderer_invoke ''singbox-get-version'' [] r)"
| "call electron_onCoreVersionUpdate args r =
     (let callback = param0 args;
          (l, r1) = new_arrow Pass_first callback r;
          r2 = ipcRenderer_on ''core-version-update'' l r1
      in hand (Remove_listener_fn ''core-version-update'' callback) r2)"
| "call electron_onDownloadComplete args r =
     (let callback = param0 args;
          (l, r1) = new_arrow Pass_first callback r
      in (Ret_emitter, ipcRenderer_on ''download-complete'' l r1))"
| "call electron_removeDownloadComplete args r =
     ipcRenderer_removeListener ''download-complete'' (param0 args) r"
| "call electron_getProfileData args r =
     (Ret_promise, ipcRenderer_invoke ''get-profile-data'' [] r)"
| "call electron_onProfileData args r =
     (let callback = param0 args;
          (l, r1) = new_arrow Pass_first callback r
      in (Ret_emitter, ipcRenderer_on ''profile-data'' l r1))"
| "call electron_removeProfileData args r =
     ipcRenderer_removeListener ''profile-data'' (param0 args) r"
| "call electron_getProfileFiles args r =
     (Ret_promise, ipcRenderer_invoke ''getProfileFiles'' [] r)"
| "call electron_exportProfile args r =
     (Ret_promise, ipcRenderer_invoke ''exportProfile'' [param0 args] r)"
| "call electron_renameProfile args r =
     (Ret_promise, ipcRenderer_invoke ''renameProfile'' [param0 args] r)"
| "call electron_deleteProfile args r =
     (Ret_promise, ipcRenderer_invoke ''deleteProfile'' [param0 args] r)"
| "call electron_openFileInEditor args r =
     (Ret_promise, ipcRenderer_invoke ''openFileInEditor'' [param0 args] r)"
| "call electron_openAddProfileDialog args r =
     (Ret_undefined, ipcRenderer_send ''open-add-profile-dialog'' [] r)"
| "call electron_onProfilesChanged args r =
     (let callback = param0 args;
          r1 = ipcRenderer_send ''profiles-changed-listen'' [] r;
          (l, r2) = new_arrow Pass_none callback r1;
          r3 = ipcRenderer_on ''profiles-changed'' l r2
      in hand (Profiles_unlisten_fn callback) r3)"
| "call electron_getConfigPath args r =
     (Ret_promise, ipcRenderer_invoke ''get-config-path'' [] r)"
| "call electron_setConfigPath args r =
     (Ret_promise, ipcRenderer_invoke ''set-config-path'' [param0 args] r)"
| "call logs_onLogMessage args r =
     (let callback = param0 args;
          (l, r1) = new_arrow Pass_first callback r;
          r2 = ipcRenderer_on ''log-message'' l r1
      in hand (Remove_listener_fn ''log-message'' callback) r2)"
| "call logs_onActivityLog args r =
     (let callback = param0 args;
          (l, r1) = new_arrow Pass_first callback r;
          r2 = ipcRenderer_on ''activity-log'' l r1
      in hand (Remove_listener_fn ''activity-log'' callback) r2)"
| "call logs_getLogHistory args r = (Ret_promise, ipcRenderer_invoke ''get-log-history'' [] r)"
| "call logs_clearLogs args r = (Ret_promise, ipcRenderer_invoke ''clear-logs'' [] r)"

text \<open>Calling a function the bridge returned. Neither kind looks at its arguments.\<close>

fun call_returned :: "returned_fn \<Rightarrow> renderer \<Rightarrow> retval \<times> renderer" where
  "call_returned (Remove_listener_fn c callback) r = ipcRenderer_removeListener c callback r"
| "call_returned (Profiles_unlisten_fn callback) r =
     (let r1 = ipcRenderer_send ''profiles-changed-unlisten'' [] r;
          (x, r2) = ipcRenderer_removeListener ''profiles-changed'' callback r1
      in ((case x of Ret_TypeError \<Rightarrow> Ret_TypeError | _ \<Rightarrow> Ret_undefined), r2))"

subsection \<open>A message arriving on a channel\<close>

text \<open>
  \<open>emit\<close> calls the listeners of the channel in the order they were added, each with the
  event object and the message's arguments. An arrow of the bridge calls its callback,
  which raises a TypeError when the callback is not a function; the exception leaves
  \<open>emit\<close>, so the later listeners are not called.
\<close>

datatype invocation =
    Invoked nat "jsval list"
  | Not_a_function

fun invoke_listener :: "fnref \<Rightarrow> jsval \<Rightarrow> jsval list \<Rightarrow> invocation" where
  "invoke_listener (Page_fn n) event as = Invoked n (event # as)"
| "invoke_listener (Arrow_fn k Pass_first (JFun n)) event as = Invoked n [param0 as]"
| "invoke_listener (Arrow_fn k Pass_none (JFun n)) event as = Invoked n []"
| "invoke_listener (Arrow_fn k a v) event as = Not_a_function"

fun run_listeners :: "fnref list \<Rightarrow> jsval \<Rightarrow> jsval list \<Rightarrow> invocation list" where
  "run_listeners [] event as = []"
| "run_listeners (l # ls) event as =
     (case invoke_listener l event as of
        Not_a_function \<Rightarrow> [Not_a_function]
      | i \<Rightarrow> i # run_listeners ls event as)"

definition listeners_on :: "string \<Rightarrow> renderer \<Rightarrow> fnref list" where
  "listeners_on c r = map snd (filter (\<lambda>e. fst e = c) (listeners r))"

definition ipcRenderer_emit :: "string \<Rightarrow> jsval \<Rightarrow> jsval list \<Rightarrow> renderer \<Rightarrow> invocation list" where
  "ipcRenderer_emit c event as r = run_listeners (listeners_on c r) event as"

subsection \<open>What the page can do\<close>

text \<open>
  The page calls an exposed function with arguments of its choice, or one of the functions
  that were handed to it (by its position in the order of handing; a position not yet
  filled is no function of the bridge, and nothing happens on \<open>ipcRenderer\<close>).
\<close>

datatype page_action =
    Call api "jsval list"
  | Call_returned nat

fun page_step :: "page_action \<Rightarrow> renderer \<Rightarrow> renderer" where
  "page_step (Call f args) r = snd (call f args r)"
| "page_step (Call_returned i) r =
     (if i < length (handed r) then snd (call_returned (handed r ! i) r) else r)"

fun page_run :: "page_action list \<Rightarrow> renderer \<Rightarrow> renderer" where
  "page_run [] r = r"
| "page_run (a # as) r = page_run as (page_step a r)"

text \<open>The channel names written in the bridge, in the order of first appearance.\<close>

definition whitelist :: "string list" where
  "whitelist =
    [''window-minimize'', ''window-maximize'', ''window-close'', ''show-window'', ''quit-app'',
     ''download-profile'', ''download-core'', ''core-download-progress'', ''status-update'',
     ''openConfigDir'', ''singbox-check-installed'', ''singbox-get-version'',
     ''singbox-check-config'', ''singbox-format-config'', ''singbox-start-core'',
     ''singbox-stop-core'', ''singbox-get-status'', ''singbox-run'', ''singbox-stop'',
     ''singbox-download-core'', ''singbox-output'', ''singbox-exit'', ''core-version-update'',
     ''download-complete'', ''get-profile-data'', ''profile-data'', ''getProfileFiles'',
     ''exportProfile'', ''renameProfile'', ''deleteProfile'', ''openFileInEditor'',
     ''open-add-profile-dialog'', ''profiles-changed-listen'', ''profiles-changed'',
     ''profiles-changed-unlisten'', ''get-config-path'', ''set-config-path'', ''log-message'',
     ''activity-log'', ''get-log-history'', ''clear-logs'']"

text \<open>The calls an action added to the trace.\<close>

definition new_calls :: "renderer \<Rightarrow> renderer \<Rightarrow> ipc_call list" where
  "new_calls r r' = drop (length (trace r)) (trace r')"

section \<open>The window module\<close>

subsection \<open>What the module sees of Electron and of its sibling modules\<close>

text \<open>
  The three paths the module builds with \<open>path.join\<close>: \<open>dist/index.html\<close> two levels
  above the module, \<open>app.asar/dist/index.html\<close> under the resources directory, and
  \<open>preload.js\<close> two levels above the module.
\<close>

datatype app_path = Dist_index_html | Asar_dist_index_html | Preload_js

datatype load = LoadURL string | LoadFile app_path

text \<open>
  The process environment: \<open>process.env.NODE_ENV\<close> (\<open>None\<close> when unset) and what
  \<open>fs.existsSync\<close> answers.
\<close>

record environment =
  NODE_ENV :: "string option"
  existsSync :: "app_path \<Rightarrow> bool"

definition isDev :: "environment \<Rightarrow> bool" where
  "isDev env = (NODE_ENV env = Some ''development'')"

record webPreferences =
  nodeIntegration :: bool
  contextIsolation :: bool
  preload :: app_path
  v8CacheOptions :: string
  backgroundThrottling :: bool
  enableBlinkFeatures :: string
  enablePreferredSizeMode :: bool
  spellcheck :: bool
  devTools :: bool
  webSecurity :: bool

record options =
  opt_width :: int
  opt_height :: int
  opt_minWidth :: int
  opt_minHeight :: int
  opt_webPreferences :: webPreferences
  opt_resizable :: bool
  opt_frame :: bool
  opt_titleBarStyle :: string
  opt_show :: bool

text \<open>The functions the module registers as listeners, named after their events.\<close>

datatype listener_id =
    L_will_resize
  | L_resize
  | L_did_fail_load_1
  | L_did_fail_load_2
  | L_did_finish_load
  | L_window_minimize
  | L_window_close
  | L_window_maximize
  | L_close
  | L_before_input_event

text \<open>
  A \<open>BrowserWindow\<close> with its \<open>webContents\<close>: the attributes the module reads and
  writes, the pages it was told to load, the messages sent to its page, and the listeners
  on the window and on its \<open>webContents\<close> (oldest first).
\<close>

record browser_window =
  constructed_with :: options
  destroyed :: bool
  visible :: bool
  minimized :: bool
  maximized :: bool
  focused :: bool
  width :: int
  height :: int
  minimumWidth :: int
  minimumHeight :: int
  devToolsOpened :: bool
  loads :: "load list"
  sent :: "(string \<times> jsval) list"
  window_on :: "(string \<times> listener_id) list"
  webContents_on :: "(string \<times> listener_id) list"

text \<open>
  \<open>new BrowserWindow(opts)\<close>: a live window of the size and the minimum size that the
  options give, shown when \<open>show\<close> is set.
\<close>

definition new_BrowserWindow :: "options \<Rightarrow> browser_window" where
  "new_BrowserWindow opts =
     \<lparr>constructed_with = opts, destroyed = False, visible = opt_show opts, minimized = False,
      maximized = False, focused = False, width = opt_width opts, height = opt_height opts,
      minimumWidth = opt_minWidth opts, minimumHeight = opt_minHeight opts,
      devToolsOpened = False, loads = [], sent = [], window_on = [], webContents_on = []\<rparr>"

text \<open>The methods of the window: each changes the attribute it is named after.\<close>

definition isDestroyed :: "browser_window \<Rightarrow> bool" where
  "isDestroyed w = destroyed w"

definition isVisible :: "browser_window \<Rightarrow> bool" where
  "isVisible w = visible w"

definition isMinimized :: "browser_window \<Rightarrow> bool" where
  "isMinimized w = minimized w"

definition isMaximized :: "browser_window \<Rightarrow> bool" where
  "isMaximized w = maximized w"

definition minimize :: "browser_window \<Rightarrow> browser_window" where
  "minimize w = w\<lparr>minimized := True\<rparr>"

definition restore :: "browser_window \<Rightarrow> browser_window" where
  "restore w = w\<lparr>minimized := False\<rparr>"

definition maximize :: "browser_window \<Rightarrow> browser_window" where
  "maximize w = w\<lparr>maximized := True\<rparr>"

definition unmaximize :: "browser_window \<Rightarrow> browser_window" where
  "unmaximize w = w\<lparr>maximized := False\<rparr>"

definition hide :: "browser_window \<Rightarrow> browser_window" where
  "hide w = w\<lparr>visible := False\<rparr>"

definition show_window :: "browser_window \<Rightarrow> browser_window" where
  "show_window w = w\<lparr>visible := True\<rparr>"

definition focus :: "browser_window \<Rightarrow> browser_window" where
  "focus w = w\<lparr>focused := True\<rparr>"

definition getSize :: "browser_window \<Rightarrow> int \<times> int" where
  "getSize w = (width w, height w)"

definition setSize :: "int \<Rightarrow> int \<Rightarrow> browser_window \<Rightarrow> browser_window" where
  "setSize x y w = w\<lparr>width := x, height := y\<rparr>"

definition setMinimumSize :: "int \<Rightarrow> int \<Rightarrow> browser_window \<Rightarrow> browser_window" where
  "setMinimumSize x y w = w\<lparr>minimumWidth := x, minimumHeight := y\<rparr>"

definition loadURL :: "string \<Rightarrow> browser_window \<Rightarrow> browser_window" where
  "loadURL u w = w\<lparr>loads := loads w @ [LoadURL u]\<rparr>"

definition loadFile :: "app_path \<Rightarrow> browser_window \<Rightarrow> browser_window" where
  "loadFile p w = w\<lparr>loads := loads w @ [LoadFile p]\<rparr>"

definition webContents_send :: "string \<Rightarrow> jsval \<Rightarrow> browser_window \<Rightarrow> browser_window" where
  "webContents_send c v w = w\<lparr>sent := sent w @ [(c, v)]\<rparr>"

definition openDevTools :: "browser_window \<Rightarrow> browser_window" where
  "openDevTools w = w\<lparr>devToolsOpened := True\<rparr>"

definition closeDevTools :: "browser_window \<Rightarrow> browser_window" where
  "closeDevTools w = w\<lparr>devToolsOpened := False\<rparr>"

definition on_window :: "string \<Rightarrow> listener_id \<Rightarrow> browser_window \<Rightarrow> browser_window" where
  "on_window e l w = w\<lparr>window_on := window_on w @ [(e, l)]\<rparr>"

definition on_webContents :: "string \<Rightarrow> listener_id \<Rightarrow> browser_window \<Rightarrow> browser_window" where
  "on_webContents e l w = w\<lparr>webContents_on := webContents_on w @ [(e, l)]\<rparr>"

text \<open>The event object handed to a listener.\<close>

record event =
  defaultPrevented :: bool

definition event0 :: event where
  "event0 = \<lparr>defaultPrevented = False\<rparr>"

definition preventDefault :: "event \<Rightarrow> event" where
  "preventDefault ev = ev\<lparr>defaultPrevented := True\<rparr>"

text \<open>
  Calls into the modules \<open>../utils/logger\<close>, \<open>../utils/sing-box\<close> and
  \<open>./profile-manager\<close>, and to \<open>setTimeout\<close>, in the order they are made. The text of
  the two error messages is not kept, only what is interpolated into the first.
\<close>

datatype ext_call =
    Logger_setMainWindow
  | Singbox_setMainWindow
  | Logger_info string
  | Logger_error_page_load int string
  | Logger_error_html_load
  | ProfileManager_scanProfileConfig
  | SetTimeout_loadAppContent nat

datatype headers_listener = Csp_rewrite

text \<open>
  The state of the main process as this module sees it: the module variable
  \<open>mainWindow\<close> (\<open>None\<close> is \<open>null\<close>), \<open>global.isQuitting\<close>, the listeners on \<open>ipcMain\<close>,
  the listener of the session's \<open>webRequest.onHeadersReceived\<close>, the calls made outside the
  module, and the number of timers that have not fired yet.
\<close>

record main_process =
  mainWindow :: "browser_window option"
  isQuitting :: jsval
  ipcMain_on :: "(string \<times> listener_id) list"
  onHeadersReceived :: "headers_listener option"
  external :: "ext_call list"
  timers :: nat

definition initial :: "jsval \<Rightarrow> main_process" where
  "initial q =
     \<lparr>mainWindow = None, isQuitting = q, ipcMain_on = [], onHeadersReceived = None,
      external = [], timers = 0\<rparr>"

text \<open>
  A listener either returns, or an exception leaves it: a method called on \<open>null\<close> or on
  a destroyed window raises a TypeError. Both carry the state they leave behind.
\<close>

datatype outcome = Done main_process | Uncaught main_process

fun state_of :: "outcome \<Rightarrow> main_process" where
  "state_of (Done st) = st"
| "state_of (Uncaught st) = st"

fun completed :: "outcome \<Rightarrow> bool" where
  "completed (Done st) = True"
| "completed (Uncaught st) = False"

definition deref :: "main_process \<Rightarrow> browser_window option" where
  "deref st = (case mainWindow st of
                 None \<Rightarrow> None
               | Some w \<Rightarrow> if destroyed w then None else Some w)"

definition ext :: "ext_call \<Rightarrow> main_process \<Rightarrow> main_process" where
  "ext c st = st\<lparr>external := external st @ [c]\<rparr>"

definition ipcMain_on_channel :: "string \<Rightarrow> listener_id \<Rightarrow> main_process \<Rightarrow> main_process" where
  "ipcMain_on_channel c l st = st\<lparr>ipcMain_on := ipcMain_on st @ [(c, l)]\<rparr>"

definition setTimeout_loadAppContent :: "nat \<Rightarrow> main_process \<Rightarrow> main_process" where
  "setTimeout_loadAppContent ms st =
     (ext (SetTimeout_loadAppContent ms) st)\<lparr>timers := Suc (timers st)\<rparr>"

subsection \<open>\<open>loadAppContent\<close>\<close>

text \<open>
  Outside development the three branches of the \<open>try\<close> block all call \<open>loadFile\<close>; with
  \<open>mainWindow\<close> unusable the call raises, the \<open>catch\<close> block logs and calls \<open>loadFile\<close>
  again, which raises again.
\<close>

definition loadAppContent :: "environment \<Rightarrow> main_process \<Rightarrow> outcome" where
  "loadAppContent env st =
     (if isDev env then
        (case deref st of
           None \<Rightarrow> Uncaught st
         | Some w \<Rightarrow> Done (st\<lparr>mainWindow := Some (loadURL ''http://localhost:3000'' w)\<rparr>))
      else
        (case deref st of
           None \<Rightarrow> Uncaught (ext Logger_error_html_load st)
         | Some w \<Rightarrow>
             if existsSync env Dist_index_html
             then Done (st\<lparr>mainWindow := Some (loadFile Dist_index_html w)\<rparr>)
             else if existsSync env Asar_dist_index_html
             then Done (st\<lparr>mainWindow := Some (loadFile Asar_dist_index_html w)\<rparr>)
             else Done (st\<lparr>mainWindow := Some (loadFile Dist_index_html w)\<rparr>)))"

subsection \<open>The listener of \<open>onHeadersReceived\<close>\<close>

text \<open>
  Response headers are an object from header names to lists of values;
  \<open>details.responseHeaders\<close> is optional, and spreading \<open>undefined\<close> adds nothing.
\<close>

type_synonym headers = "string \<rightharpoonup> string list"

record details =
  url :: string
  responseHeaders :: "headers option"

record headers_response =
  response_responseHeaders :: headers

definition spread :: "headers option \<Rightarrow> headers" where
  "spread h = (case h of None \<Rightarrow> Map.empty | Some m \<Rightarrow> m)"

definition csp_policy :: string where
  "csp_policy =
     ''script-src 'self' 'unsafe-inline' 'unsafe-eval'; style-src 'self' 'unsafe-inline''
       @ [CHR 0x27]"

definition headers_received_listener :: "details \<Rightarrow> headers_response" where
  "headers_received_listener d =
     \<lparr>response_responseHeaders =
        (spread (responseHeaders d))(''Content-Security-Policy'' \<mapsto> [csp_policy])\<rparr>"

text \<open>What a response's headers become: with no listener the session leaves them alone.\<close>

definition headers_received :: "main_process \<Rightarrow> details \<Rightarrow> headers" where
  "headers_received st d =
     (case onHeadersReceived st of
        None \<Rightarrow> spread (responseHeaders d)
      | Some Csp_rewrite \<Rightarrow> response_responseHeaders (headers_received_listener d))"

subsection \<open>The listeners\<close>

definition on_will_resize :: "event \<Rightarrow> int \<Rightarrow> int \<Rightarrow> event" where
  "on_will_resize ev newWidth newHeight =
     (if newWidth < 800 \<or> newHeight < 600 then preventDefault ev else ev)"

definition on_resize :: "main_process \<Rightarrow> outcome" where
  "on_resize st =
     (case deref st of
        None \<Rightarrow> Uncaught st
      | Some w \<Rightarrow>
          (let (x, y) = getSize w in
           if x < 800 \<or> y < 600
           then Done (st\<lparr>mainWindow := Some (setSize (max x 800) (max y 600) w)\<rparr>)
           else Done st))"

definition on_did_fail_load_1 :: "int \<Rightarrow> string \<Rightarrow> main_process \<Rightarrow> outcome" where
  "on_did_fail_load_1 errorCode errorDescription st =
     Done (setTimeout_loadAppContent 1000
            (ext (Logger_error_page_load errorCode errorDescription) st))"

definition on_did_fail_load_2 :: "main_process \<Rightarrow> outcome" where
  "on_did_fail_load_2 st = Done (setTimeout_loadAppContent 1000 st)"

text \<open>
  \<open>scanned\<close> is what \<open>profileManager.scanProfileConfig()\<close> returns at this call; the
  function is in a module that is not part of the sources.
\<close>

definition on_did_finish_load :: "jsval \<Rightarrow> main_process \<Rightarrow> outcome" where
  "on_did_finish_load scanned st =
     (let st1 = ext (Logger_info ''Page loaded successfully'') st in
      case deref st1 of
        None \<Rightarrow> Uncaught st1
      | Some w \<Rightarrow>
          (let w1 = (if \<not> isVisible w then show_window w else w);
               st2 = ext ProfileManager_scanProfileConfig (st1\<lparr>mainWindow := Some w1\<rparr>);
               profileData = scanned
           in if truthy profileData
              then Done (st2\<lparr>mainWindow := Some (webContents_send ''profile-data'' profileData w1)\<rparr>)
              else Done st2))"

definition on_window_minimize :: "main_process \<Rightarrow> outcome" where
  "on_window_minimize st =
     (case mainWindow st of
        None \<Rightarrow> Done st
      | Some w \<Rightarrow>
          if \<not> isDestroyed w then Done (st\<lparr>mainWindow := Some (minimize w)\<rparr>) else Done st)"

definition on_window_close :: "main_process \<Rightarrow> outcome" where
  "on_window_close st =
     (case mainWindow st of
        None \<Rightarrow> Done st
      | Some w \<Rightarrow>
          if \<not> isDestroyed w then Done (st\<lparr>mainWindow := Some (hide w)\<rparr>) else Done st)"

definition on_window_maximize :: "main_process \<Rightarrow> outcome" where
  "on_window_maximize st =
     (case mainWindow st of
        None \<Rightarrow> Done st
      | Some w \<Rightarrow>
          if \<not> isDestroyed w
          then (if isMaximized w
                then Done (st\<lparr>mainWindow := Some (unmaximize w)\<rparr>)
                else Done (st\<lparr>mainWindow := Some (maximize w)\<rparr>))
          else Done st)"

text \<open>
  The listener of the window's \<open>close\<close> event. The boolean it returns is dropped by the
  emitter; what counts is the event it leaves.
\<close>

definition on_close :: "event \<Rightarrow> main_process \<Rightarrow> event \<times> outcome" where
  "on_close ev st =
     (if \<not> truthy (isQuitting st) then
        (case deref st of
           None \<Rightarrow> (preventDefault ev, Uncaught st)
         | Some w \<Rightarrow> (preventDefault ev, Done (st\<lparr>mainWindow := Some (hide w)\<rparr>)))
      else (ev, Done st))"

text \<open>\<open>key.toLowerCase() === 'i'\<close> holds for the keys \<open>i\<close> and \<open>I\<close>.\<close>

definition on_before_input_event :: "event \<Rightarrow> string \<Rightarrow> bool \<Rightarrow> main_process \<Rightarrow> event \<times> outcome" where
  "on_before_input_event ev key control st =
     (if key = ''F12'' \<or> (control \<and> (key = ''i'' \<or> key = ''I'')) then
        (case deref st of
           None \<Rightarrow> (ev, Uncaught st)
         | Some w \<Rightarrow>
             (preventDefault ev,
              Done (st\<lparr>mainWindow :=
                     Some (if devToolsOpened w then closeDevTools w else openDevTools w)\<rparr>)))
      else (ev, Done st))"

subsection \<open>\<open>createWindow\<close>, \<open>getMainWindow\<close>, \<open>showWindow\<close>\<close>

definition window_options :: options where
  "window_options =
     \<lparr>opt_width = 1080, opt_height = 780, opt_minWidth = 800, opt_minHeight = 600,
      opt_webPreferences =
        \<lparr>nodeIntegration = False, contextIsolation = True, preload = Preload_js,
         v8CacheOptions = ''code'', backgroundThrottling = False,
         enableBlinkFeatures = ''JSHeavyAdThrottling'', enablePreferredSizeMode = True,
         spellcheck = False, devTools = True, webSecurity = True\<rparr>,
      opt_resizable = True, opt_frame = False, opt_titleBarStyle = ''hidden'',
      opt_show = False\<rparr>"

text \<open>A method call on the window that \<open>mainWindow\<close> holds.\<close>

definition on_mainWindow :: "(browser_window \<Rightarrow> browser_window) \<Rightarrow> main_process \<Rightarrow> main_process" where
  "on_mainWindow f st = st\<lparr>mainWindow := map_option f (mainWindow st)\<rparr>"

text \<open>
  The statements of \<open>createWindow\<close> in their order. The function returns \<open>mainWindow\<close>,
  which is read off the state it leaves.
\<close>

definition createWindow :: "environment \<Rightarrow> main_process \<Rightarrow> outcome" where
  "createWindow env st =
     (let s1 = st\<lparr>mainWindow := Some (new_BrowserWindow window_options)\<rparr>;
          s2 = ext Logger_setMainWindow s1;
          s3 = ext Singbox_setMainWindow s2;
          s4 = (if isDev env then s3\<lparr>onHeadersReceived := Some Csp_rewrite\<rparr> else s3);
          s5 = on_mainWindow (setMinimumSize 800 600) s4;
          s6 = on_mainWindow (on_window ''will-resize'' L_will_resize) s5;
          s7 = on_mainWindow (on_window ''resize'' L_resize) s6;
          s8 = on_mainWindow (on_webContents ''did-fail-load'' L_did_fail_load_1) s7;
          s9 = ext Singbox_setMainWindow s8;
          s10 = on_mainWindow (on_webContents ''did-fail-load'' L_did_fail_load_2) s9;
          s11 = on_mainWindow (on_webContents ''did-finish-load'' L_did_finish_load) s10
      in case loadAppContent env s11 of
           Uncaught s \<Rightarrow> Uncaught s
         | Done s12 \<Rightarrow>
             (let s13 = ipcMain_on_channel ''window-minimize'' L_window_minimize s12;
                  s14 = ipcMain_on_channel ''window-close'' L_window_close s13;
                  s15 = ipcMain_on_channel ''window-maximize'' L_window_maximize s14;
                  s16 = on_mainWindow (on_window ''close'' L_close) s15;
                  s17 = on_mainWindow (on_webContents ''before-input-event'' L_before_input_event) s16
              in Done s17))"

definition getMainWindow :: "main_process \<Rightarrow> browser_window option" where
  "getMainWindow st = mainWindow st"

definition showWindow :: "main_process \<Rightarrow> outcome" where
  "showWindow st =
     (case mainWindow st of
        None \<Rightarrow> Done st
      | Some w \<Rightarrow>
          if destroyed w then Uncaught st
          else (let w1 = (if \<not> isVisible w then show_window w else w);
                    w2 = (if isMinimized w1 then restore w1 else w1)
                in Done (st\<lparr>mainWindow := Some (focus w2)\<rparr>)))"

subsection \<open>Events\<close>

text \<open>
  What can happen to the running module: a message from the page on a channel of
  \<open>ipcMain\<close>; the user dragging the window to new bounds; the window having been resized
  (by whatever cause) to a size; a request to close the window; a page load failing or
  finishing (with what \<open>scanProfileConfig\<close> will return); a key going down (its name and
  whether Control is held); a timer firing.
\<close>

datatype occurrence =
    Ipc_message string
  | User_resize int int
  | Resized int int
  | Close_requested
  | Load_failed int string
  | Load_finished jsval
  | Input string bool
  | Timeout

text \<open>
  Running one registered listener at an occurrence. An emitter calls a listener only at
  the event it was registered for, which gives it that event's arguments; at any other
  occurrence it is not called.
\<close>

fun run_listener :: "occurrence \<Rightarrow> listener_id \<Rightarrow> event \<Rightarrow> main_process \<Rightarrow> event \<times> outcome" where
  "run_listener oc L_will_resize ev st =
     (case oc of User_resize x y \<Rightarrow> (on_will_resize ev x y, Done st) | _ \<Rightarrow> (ev, Done st))"
| "run_listener oc L_resize ev st = (ev, on_resize st)"
| "run_listener oc L_did_fail_load_1 ev st =
     (case oc of Load_failed c d \<Rightarrow> (ev, on_did_fail_load_1 c d st) | _ \<Rightarrow> (ev, Done st))"
| "run_listener oc L_did_fail_load_2 ev st = (ev, on_did_fail_load_2 st)"
| "run_listener oc L_did_finish_load ev st =
     (case oc of Load_finished v \<Rightarrow> (ev, on_did_finish_load v st) | _ \<Rightarrow> (ev, Done st))"
| "run_listener oc L_window_minimize ev st = (ev, on_window_minimize st)"
| "run_listener oc L_window_close ev st = (ev, on_window_close st)"
| "run_listener oc L_window_maximize ev st = (ev, on_window_maximize st)"
| "run_listener oc L_close ev st = on_close ev st"
| "run_listener oc L_before_input_event ev st =
     (case oc of Input k c \<Rightarrow> on_before_input_event ev k c st | _ \<Rightarrow> (ev, Done st))"

text \<open>
  \<open>emit\<close>: the listeners run in the order they were added, on one event object; an
  exception that leaves a listener leaves \<open>emit\<close>.
\<close>

fun emit :: "occurrence \<Rightarrow> listener_id list \<Rightarrow> event \<Rightarrow> main_process \<Rightarrow> event \<times> outcome" where
  "emit oc [] ev st = (ev, Done st)"
| "emit oc (l # ls) ev st =
     (case run_listener oc l ev st of
        (ev1, Done st1) \<Rightarrow> emit oc ls ev1 st1
      | (ev1, Uncaught st1) \<Rightarrow> (ev1, Uncaught st1))"

definition registered :: "string \<Rightarrow> (string \<times> listener_id) list \<Rightarrow> listener_id list" where
  "registered e reg = map snd (filter (\<lambda>p. fst p = e) reg)"

text \<open>
  One occurrence. Events of the window and of its page happen only while the window is
  alive. A resize by the user first emits \<open>will-resize\<close> and is given up when a listener
  prevents the default; a resize changes the size and then emits \<open>resize\<close>. A close
  request emits \<open>close\<close>, and the window is destroyed unless a listener prevents the default.
\<close>

definition resized :: "int \<Rightarrow> int \<Rightarrow> main_process \<Rightarrow> outcome" where
  "resized x y st =
     (case deref st of
        None \<Rightarrow> Done st
      | Some w \<Rightarrow>
          snd (emit (Resized x y) (registered ''resize'' (window_on w)) event0
                 (st\<lparr>mainWindow := Some (w\<lparr>width := x, height := y\<rparr>)\<rparr>)))"

fun step :: "environment \<Rightarrow> occurrence \<Rightarrow> main_process \<Rightarrow> outcome" where
  "step env (Ipc_message c) st =
     snd (emit (Ipc_message c) (registered c (ipcMain_on st)) event0 st)"
| "step env (User_resize x y) st =
     (case deref st of
        None \<Rightarrow> Done st
      | Some w \<Rightarrow>
          (case emit (User_resize x y) (registered ''will-resize'' (window_on w)) event0 st of
             (ev, Uncaught st1) \<Rightarrow> Uncaught st1
           | (ev, Done st1) \<Rightarrow> if defaultPrevented ev then Done st1 else resized x y st1))"
| "step env (Resized x y) st = resized x y st"
| "step env Close_requested st =
     (case deref st of
        None \<Rightarrow> Done st
      | Some w \<Rightarrow>
          (case emit Close_requested (registered ''close'' (window_on w)) event0 st of
             (ev, Uncaught st1) \<Rightarrow> Uncaught st1
           | (ev, Done st1) \<Rightarrow>
               if defaultPrevented ev then Done st1
               else Done (on_mainWindow (\<lambda>w. w\<lparr>destroyed := True\<rparr>) st1)))"
| "step env (Load_failed c d) st =
     (case deref st of
        None \<Rightarrow> Done st
      | Some w \<Rightarrow>
          snd (emit (Load_failed c d) (registered ''did-fail-load'' (webContents_on w)) event0 st))"
| "step env (Load_finished v) st =
     (case deref st of
        None \<Rightarrow> Done st
      | Some w \<Rightarrow>
          snd (emit (Load_finished v) (registered ''did-finish-load'' (webContents_on w)) event0 st))"
| "step env (Input k c) st =
     (case deref st of
        None \<Rightarrow> Done st
      | Some w \<Rightarrow>
          snd (emit (Input k c) (registered ''before-input-event'' (webContents_on w)) event0 st))"
| "step env Timeout st =
     (if timers st = 0 then Done st else loadAppContent env (st\<lparr>timers := timers st - 1\<rparr>))"

fun run :: "environment \<Rightarrow> occurrence list \<Rightarrow> main_process \<Rightarrow> outcome" where
  "run env [] st = Done st"
| "run env (oc # ocs) st =
     (case step env oc st of
        Done st1 \<Rightarrow> run env ocs st1
      | Uncaught st1 \<Rightarrow> Uncaught st1)"

section \<open>Notions used in the statements\<close>

text \<open>The channels of the calls that one call of an exposed function makes.\<close>

definition channels_of_call :: "api \<Rightarrow> jsval list \<Rightarrow> renderer \<Rightarrow> string list" where
  "channels_of_call f args r = map channel_of (new_calls r (snd (call f args r)))"

text \<open>
  The channels of the calls made by the function that the call returned, when it is run
  next; none when the call returned no function of the bridge.
\<close>

definition channels_of_returned :: "api \<Rightarrow> jsval list \<Rightarrow> renderer \<Rightarrow> string list" where
  "channels_of_returned f args r =
     (case call f args r of
        (Ret_function u, r1) \<Rightarrow> map channel_of (new_calls r1 (snd (call_returned u r1)))
      | _ \<Rightarrow> [])"

fun returned_channels :: "returned_fn \<Rightarrow> string list" where
  "returned_channels (Remove_listener_fn c callback) = [c]"
| "returned_channels (Profiles_unlisten_fn callback) =
     [''profiles-changed-unlisten'', ''profiles-changed'']"

definition handed_ok :: "returned_fn \<Rightarrow> bool" where
  "handed_ok u = (set (returned_channels u) \<subseteq> set whitelist)"

definition bridge_inv :: "renderer \<Rightarrow> bool" where
  "bridge_inv r =
     (set (map channel_of (trace r)) \<subseteq> set whitelist \<and> list_all handed_ok (handed r))"

text \<open>The exposed functions whose calls, or whose returned functions' calls, use a channel.\<close>

definition channel_users :: "string \<Rightarrow> api list" where
  "channel_users c =
     filter (\<lambda>g. c \<in> set (channels_of_call g [] renderer0 @ channels_of_returned g [] renderer0))
       api_list"

text \<open>
  The page subscribes a callback with an exposed function and at once calls the function
  it was given back.
\<close>

definition subscribe_then_unsubscribe :: "api \<Rightarrow> jsval \<Rightarrow> renderer \<Rightarrow> renderer" where
  "subscribe_then_unsubscribe f callback r =
     (case call f [callback] r of
        (Ret_function u, r1) \<Rightarrow> snd (call_returned u r1)
      | (x, r1) \<Rightarrow> r1)"

text \<open>Every listener in the list is an arrow function that the bridge created.\<close>

definition only_arrows :: "(string \<times> fnref) list \<Rightarrow> bool" where
  "only_arrows ls =
     list_all (\<lambda>e. case snd e of Arrow_fn k a v \<Rightarrow> True | Page_fn n \<Rightarrow> False) ls"

text \<open>
  The main process once \<open>createWindow\<close> has run in the module's first state, and after a
  sequence of occurrences from there. \<open>createWindow\<close> is taken to run once: the module
  itself never calls it.
\<close>

definition created :: "environment \<Rightarrow> jsval \<Rightarrow> main_process" where
  "created env q = state_of (createWindow env (initial q))"

definition reached :: "environment \<Rightarrow> jsval \<Rightarrow> occurrence list \<Rightarrow> main_process" where
  "reached env q ocs = state_of (run env ocs (created env q))"


text \<open>The main window is an object that has not been destroyed.\<close>

definition alive :: "main_process \<Rightarrow> bool" where
  "alive st = (case mainWindow st of None \<Rightarrow> False | Some w \<Rightarrow> \<not> destroyed w)"

definition big_enough :: "main_process \<Rightarrow> bool" where
  "big_enough st =
     (case mainWindow st of None \<Rightarrow> False | Some w \<Rightarrow> 800 \<le> width w \<and> 600 \<le> height w)"

text \<open>The listeners are those that \<open>createWindow\<close> registers, each once.\<close>

definition wired :: "main_process \<Rightarrow> bool" where
  "wired st =
     (case mainWindow st of
        None \<Rightarrow> False
      | Some w \<Rightarrow>
          window_on w =
            [(''will-resize'', L_will_resize), (''resize'', L_resize), (''close'', L_close)]
          \<and> webContents_on w =
              [(''did-fail-load'', L_did_fail_load_1), (''did-fail-load'', L_did_fail_load_2),
               (''did-finish-load'', L_did_finish_load),
               (''before-input-event'', L_before_input_event)]
          \<and> ipcMain_on st =
              [(''window-minimize'', L_window_minimize), (''window-close'', L_window_close),
               (''window-maximize'', L_window_maximize)])"

definition steady :: "jsval \<Rightarrow> headers_listener option \<Rightarrow> main_process \<Rightarrow> bool" where
  "steady q h st =
     (wired st \<and> big_enough st \<and> isQuitting st = q \<and> onHeadersReceived st = h)"

text \<open>What \<open>loadAppContent\<close> loads into a usable window.\<close>

definition first_load :: "environment \<Rightarrow> load" where
  "first_load env =
     (if isDev env then LoadURL ''http://localhost:3000''
      else if existsSync env Dist_index_html then LoadFile Dist_index_html
      else if existsSync env Asar_dist_index_html then LoadFile Asar_dist_index_html
      else LoadFile Dist_index_html)"

text \<open>Concrete inputs: two environments, and a state holding a window just constructed.\<close>

definition env_production :: environment where
  "env_production = \<lparr>NODE_ENV = None, existsSync = (\<lambda>p. p = Dist_index_html)\<rparr>"

definition env_development :: environment where
  "env_development = \<lparr>NODE_ENV = Some ''development'', existsSync = (\<lambda>p. False)\<rparr>"

definition fresh_window_state :: "jsval \<Rightarrow> main_process" where
  "fresh_window_state q = (initial q)\<lparr>mainWindow := Some (new_BrowserWindow window_options)\<rparr>"

section \<open>Properties of the bridge\<close>

lemmas ipc_defs = ipcRenderer_send_def ipcRenderer_invoke_def ipcRenderer_on_def
  new_arrow_def hand_def

lemma trace_removeListener:
  "trace (snd (ipcRenderer_removeListener c v r)) = trace r @ [RemoveListener c v]"
  by (cases v) simp_all

lemma handed_removeListener: "handed (snd (ipcRenderer_removeListener c v r)) = handed r"
  by (cases v) simp_all

lemma fst_removeListener:
  "fst (ipcRenderer_removeListener c v r) =
     (case v of JFun n \<Rightarrow> Ret_emitter | _ \<Rightarrow> Ret_TypeError)"
  by (cases v) simp_all

lemma channels_of_call_const: "channels_of_call f args r = channels_of_call f [] renderer0"
  by (cases f) (simp_all add: channels_of_call_def new_calls_def ipc_defs trace_removeListener
      renderer0_def split_def Let_def)

lemma channels_of_returned_const:
  "channels_of_returned f args r = channels_of_returned f [] renderer0"
  by (cases f) (simp_all add: channels_of_returned_def new_calls_def ipc_defs
      trace_removeListener fst_removeListener renderer0_def split_def Let_def split: jsval.split)

lemma call_returned_trace:
  "\<exists>cs. trace (snd (call_returned u r)) = trace r @ cs \<and> map channel_of cs = returned_channels u"
  by (cases u) (simp_all add: ipc_defs trace_removeListener split_def Let_def)

lemma call_returned_handed: "handed (snd (call_returned u r)) = handed r"
  by (cases u) (simp_all add: ipc_defs handed_removeListener split_def Let_def)

lemma call_trace:
  "\<exists>cs. trace (snd (call f args r)) = trace r @ cs \<and>
        map channel_of cs = channels_of_call f [] renderer0"
  by (cases f) (simp_all add: channels_of_call_def new_calls_def ipc_defs trace_removeListener
      renderer0_def split_def Let_def)

lemma api_list_all: "f \<in> set api_list"
  by (cases f) (simp_all add: api_list_def)

lemma channels_of_call_whitelisted: "set (channels_of_call f [] renderer0) \<subseteq> set whitelist"
  by (cases f) (simp_all add: channels_of_call_def new_calls_def ipc_defs trace_removeListener
      renderer0_def split_def Let_def whitelist_def)

lemma channels_of_returned_whitelisted:
  "set (channels_of_returned f [] renderer0) \<subseteq> set whitelist"
  by (cases f) (simp_all add: channels_of_returned_def new_calls_def ipc_defs
      trace_removeListener renderer0_def split_def Let_def whitelist_def)

lemma call_handed:
  "handed (snd (call f args r)) = handed r \<or>
   (\<exists>u. handed (snd (call f args r)) = handed r @ [u] \<and> handed_ok u)"
  by (cases f) (simp_all add: ipc_defs handed_removeListener split_def Let_def handed_ok_def
      whitelist_def)

lemma bridge_inv_step: "bridge_inv r \<Longrightarrow> bridge_inv (page_step a r)"
proof (cases a)
  case (Call f args)
  assume inv: "bridge_inv r"
  obtain cs where cs: "trace (snd (call f args r)) = trace r @ cs"
    "map channel_of cs = channels_of_call f [] renderer0"
    using call_trace by blast
  have "set (map channel_of cs) \<subseteq> set whitelist"
    using cs(2) channels_of_call_whitelisted by simp
  then have t: "set (map channel_of (trace (snd (call f args r)))) \<subseteq> set whitelist"
    using inv cs(1) by (simp add: bridge_inv_def)
  have "list_all handed_ok (handed (snd (call f args r)))"
    using call_handed [of f args r] inv by (auto simp: bridge_inv_def)
  with t show ?thesis using Call by (simp add: bridge_inv_def)
next
  case (Call_returned i)
  assume inv: "bridge_inv r"
  show ?thesis
  proof (cases "i < length (handed r)")
    case True
    let ?u = "handed r ! i"
    have ok: "handed_ok ?u" using inv True by (simp add: bridge_inv_def list_all_length)
    obtain cs where cs: "trace (snd (call_returned ?u r)) = trace r @ cs"
      "map channel_of cs = returned_channels ?u"
      using call_returned_trace by blast
    have "set (map channel_of cs) \<subseteq> set whitelist"
      using cs(2) ok by (simp add: handed_ok_def)
    then show ?thesis using Call_returned True inv cs(1)
      by (simp add: bridge_inv_def call_returned_handed)
  next
    case False
    then show ?thesis using Call_returned inv by simp
  qed
qed

lemma bridge_inv_run: "bridge_inv r \<Longrightarrow> bridge_inv (page_run as r)"
  by (induction as arbitrary: r) (simp_all add: bridge_inv_step)

lemma bridge_inv0: "bridge_inv renderer0"
  by (simp add: bridge_inv_def renderer0_def)

lemma whitelist_tight:
  "set whitelist =
   set (concat (map (\<lambda>f. channels_of_call f [] renderer0 @ channels_of_returned f [] renderer0)
                  api_list))"
  by (simp add: api_list_def channels_of_call_def channels_of_returned_def new_calls_def
      ipc_defs renderer0_def split_def Let_def whitelist_def insert_commute)

text \<open>
  C1. Whatever exposed function \<open>f\<close> the page calls, with whatever arguments and in
  whatever state of the renderer, the channels of the calls it makes on \<open>ipcRenderer\<close>,
  and of the calls made by the function it returns, are the same lists (first two
  conjuncts), and they lie in \<open>whitelist\<close> (next two). After any sequence of calls of
  exposed functions and of functions they returned, every call made on \<open>ipcRenderer\<close> was
  on a channel of \<open>whitelist\<close> (fifth). The list is exactly the set of channels that the
  exposed functions use (last). The object that \<open>onDownloadComplete\<close> and
  \<open>onProfileData\<close> return is the emitter itself; the page is given no operation on it
  here.
\<close>

theorem bridge_channels_whitelisted:
  "channels_of_call f args r = channels_of_call f args' r'
   \<and> channels_of_returned f args r = channels_of_returned f args' r'
   \<and> set (channels_of_call f args r) \<subseteq> set whitelist
   \<and> set (channels_of_returned f args r) \<subseteq> set whitelist
   \<and> set (map channel_of (trace (page_run as renderer0))) \<subseteq> set whitelist
   \<and> set whitelist =
       set (concat (map (\<lambda>g. channels_of_call g [] renderer0 @ channels_of_returned g [] renderer0)
                      api_list))"
proof -
  have 1: "channels_of_call f args r = channels_of_call f args' r'"
    using channels_of_call_const [of f args r] channels_of_call_const [of f args' r'] by simp
  have 2: "channels_of_returned f args r = channels_of_returned f args' r'"
    using channels_of_returned_const [of f args r] channels_of_returned_const [of f args' r']
    by simp
  have 3: "set (channels_of_call f args r) \<subseteq> set whitelist"
    using channels_of_call_const [of f args r] channels_of_call_whitelisted [of f] by simp
  have 4: "set (channels_of_returned f args r) \<subseteq> set whitelist"
    using channels_of_returned_const [of f args r] channels_of_returned_whitelisted [of f]
    by simp
  have 5: "set (map channel_of (trace (page_run as renderer0))) \<subseteq> set whitelist"
    using bridge_inv_run [OF bridge_inv0, of as] by (simp add: bridge_inv_def)
  from 1 2 3 4 5 whitelist_tight show ?thesis by blast
qed

subsection \<open>The functions of \<open>singbox\<close>\<close>

lemma singbox_invokes:
  "call singbox_checkInstalled args r =
     (Ret_promise, r\<lparr>trace := trace r @ [Invoke ''singbox-check-installed'' []]\<rparr>)"
  "call singbox_getVersion args r =
     (Ret_promise, r\<lparr>trace := trace r @ [Invoke ''singbox-get-version'' []]\<rparr>)"
  "call singbox_checkConfig args r =
     (Ret_promise,
      r\<lparr>trace := trace r @
           [Invoke ''singbox-check-config'' [JObj [(''configPath'', param0 args)]]]\<rparr>)"
  "call singbox_formatConfig args r =
     (Ret_promise,
      r\<lparr>trace := trace r @
           [Invoke ''singbox-format-config'' [JObj [(''configPath'', param0 args)]]]\<rparr>)"
  "call singbox_startCore args r =
     (Ret_promise, r\<lparr>trace := trace r @ [Invoke ''singbox-start-core'' [param0 args]]\<rparr>)"
  "call singbox_stopCore args r =
     (Ret_promise, r\<lparr>trace := trace r @ [Invoke ''singbox-stop-core'' []]\<rparr>)"
  "call singbox_getStatus args r =
     (Ret_promise, r\<lparr>trace := trace r @ [Invoke ''singbox-get-status'' []]\<rparr>)"
  "call singbox_downloadCore args r =
     (Ret_promise, r\<lparr>trace := trace r @ [Invoke ''singbox-download-core'' []]\<rparr>)"
  by (simp_all add: ipcRenderer_invoke_def)

lemma singbox_subscriptions:
  "call singbox_onOutput args r =
     (Ret_function (Remove_listener_fn ''singbox-output'' (param0 args)),
      r\<lparr>listeners := listeners r @
             [(''singbox-output'', Arrow_fn (arrows r) Pass_first (param0 args))],
        arrows := Suc (arrows r),
        trace := trace r @ [On ''singbox-output'' (Arrow_fn (arrows r) Pass_first (param0 args))],
        handed := handed r @ [Remove_listener_fn ''singbox-output'' (param0 args)]\<rparr>)"
  "call singbox_onExit args r =
     (Ret_function (Remove_listener_fn ''singbox-exit'' (param0 args)),
      r\<lparr>listeners := listeners r @
             [(''singbox-exit'', Arrow_fn (arrows r) Pass_first (param0 args))],
        arrows := Suc (arrows r),
        trace := trace r @ [On ''singbox-exit'' (Arrow_fn (arrows r) Pass_first (param0 args))],
        handed := handed r @ [Remove_listener_fn ''singbox-exit'' (param0 args)]\<rparr>)"
  by (simp_all add: ipc_defs Let_def)

lemma singbox_deliveries:
  "ipcRenderer_emit ''singbox-output'' ev [d] (snd (call singbox_onOutput [JFun n] renderer0)) =
     [Invoked n [d]]"
  "ipcRenderer_emit ''singbox-exit'' ev [d] (snd (call singbox_onExit [JFun n] renderer0)) =
     [Invoked n [d]]"
  by (simp_all add: ipc_defs Let_def ipcRenderer_emit_def listeners_on_def renderer0_def)

lemmas channel_eval = channel_users_def channels_of_call_def channels_of_returned_def
  new_calls_def ipc_defs renderer0_def split_def Let_def api_list_def

lemma singbox_channel_users:
  "channel_users ''singbox-check-installed'' = [singbox_checkInstalled]"
  "channel_users ''singbox-get-version'' = [singbox_getVersion, electron_getSingBoxVersion]"
  "channel_users ''singbox-check-config'' = [singbox_checkConfig]"
  "channel_users ''singbox-format-config'' = [singbox_formatConfig]"
  "channel_users ''singbox-start-core'' = [singbox_startCore]"
  "channel_users ''singbox-stop-core'' = [singbox_stopCore]"
  "channel_users ''singbox-get-status'' = [singbox_getStatus]"
  "channel_users ''singbox-download-core'' = [singbox_downloadCore]"
  "channel_users ''singbox-output'' = [singbox_onOutput]"
  "channel_users ''singbox-exit'' = [singbox_onExit]"
  by (simp_all add: channel_eval)

text \<open>
  C2. Each function of \<open>singbox\<close> that the claim names makes exactly one call on
  \<open>ipcRenderer\<close>, on the channel the claim gives: the six named \<open>invoke\<close>s and the
  two for checking and formatting a configuration (which pass \<open>{ configPath }\<close>), and
  the two subscriptions, which add a listener on \<open>singbox-output\<close> and on
  \<open>singbox-exit\<close>; a message arriving there then reaches the callback with the
  message's first argument. The ten channels are used by no other exposed function, but
  for \<open>singbox-get-version\<close>, which the top-level \<open>getSingBoxVersion\<close> invokes as
  well. (\<open>downloadCore\<close> is the member of \<open>singbox\<close>; the top-level function of
  that name invokes \<open>download-core\<close>.)
\<close>

theorem singbox_lifecycle_channels:
  "call singbox_checkInstalled args r =
     (Ret_promise, r\<lparr>trace := trace r @ [Invoke ''singbox-check-installed'' []]\<rparr>)
   \<and> call singbox_getVersion args r =
     (Ret_promise, r\<lparr>trace := trace r @ [Invoke ''singbox-get-version'' []]\<rparr>)
   \<and> call singbox_checkConfig args r =
     (Ret_promise,
      r\<lparr>trace := trace r @
           [Invoke ''singbox-check-config'' [JObj [(''configPath'', param0 args)]]]\<rparr>)
   \<and> call singbox_formatConfig args r =
     (Ret_promise,
      r\<lparr>trace := trace r @
           [Invoke ''singbox-format-config'' [JObj [(''configPath'', param0 args)]]]\<rparr>)
   \<and> call singbox_startCore args r =
     (Ret_promise, r\<lparr>trace := trace r @ [Invoke ''singbox-start-core'' [param0 args]]\<rparr>)
   \<and> call singbox_stopCore args r =
     (Ret_promise, r\<lparr>trace := trace r @ [Invoke ''singbox-stop-core'' []]\<rparr>)
   \<and> call singbox_getStatus args r =
     (Ret_promise, r\<lparr>trace := trace r @ [Invoke ''singbox-get-status'' []]\<rparr>)
   \<and> call singbox_downloadCore args r =
     (Ret_promise, r\<lparr>trace := trace r @ [Invoke ''singbox-download-core'' []]\<rparr>)
   \<and> call singbox_onOutput args r =
     (Ret_function (Remove_listener_fn ''singbox-output'' (param0 args)),
      r\<lparr>listeners := listeners r @
             [(''singbox-output'', Arrow_fn (arrows r) Pass_first (param0 args))],
        arrows := Suc (arrows r),
        trace := trace r @ [On ''singbox-output'' (Arrow_fn (arrows r) Pass_first (param0 args))],
        handed := handed r @ [Remove_listener_fn ''singbox-output'' (param0 args)]\<rparr>)
   \<and> call singbox_onExit args r =
     (Ret_function (Remove_listener_fn ''singbox-exit'' (param0 args)),
      r\<lparr>listeners := listeners r @
             [(''singbox-exit'', Arrow_fn (arrows r) Pass_first (param0 args))],
        arrows := Suc (arrows r),
        trace := trace r @ [On ''singbox-exit'' (Arrow_fn (arrows r) Pass_first (param0 args))],
        handed := handed r @ [Remove_listener_fn ''singbox-exit'' (param0 args)]\<rparr>)
   \<and> ipcRenderer_emit ''singbox-output'' ev [d] (snd (call singbox_onOutput [JFun n] renderer0)) =
       [Invoked n [d]]
   \<and> ipcRenderer_emit ''singbox-exit'' ev [d] (snd (call singbox_onExit [JFun n] renderer0)) =
       [Invoked n [d]]
   \<and> channel_users ''singbox-check-installed'' = [singbox_checkInstalled]
   \<and> channel_users ''singbox-get-version'' = [singbox_getVersion, electron_getSingBoxVersion]
   \<and> channel_users ''singbox-check-config'' = [singbox_checkConfig]
   \<and> channel_users ''singbox-format-config'' = [singbox_formatConfig]
   \<and> channel_users ''singbox-start-core'' = [singbox_startCore]
   \<and> channel_users ''singbox-stop-core'' = [singbox_stopCore]
   \<and> channel_users ''singbox-get-status'' = [singbox_getStatus]
   \<and> channel_users ''singbox-download-core'' = [singbox_downloadCore]
   \<and> channel_users ''singbox-output'' = [singbox_onOutput]
   \<and> channel_users ''singbox-exit'' = [singbox_onExit]"
  by (intro conjI singbox_invokes singbox_subscriptions singbox_deliveries
      singbox_channel_users)

subsection \<open>Unsubscribing\<close>

lemma listeners_removeListener:
  "listeners (snd (ipcRenderer_removeListener c v r)) =
     (case v of JFun n \<Rightarrow> remove_last (c, Page_fn n) (listeners r) | _ \<Rightarrow> listeners r)"
  by (cases v) simp_all

lemma remove_last_append_other: "x \<noteq> y \<Longrightarrow> remove_last x (xs @ [y]) = remove_last x xs @ [y]"
  by (simp add: remove_last_def)

text \<open>
  In any state and for any callback: after subscribing with one of the eight functions
  and calling what it returned, the arrow function that the subscription registered is
  still the last listener.
\<close>

lemma unsubscribe_keeps_arrow:
  assumes "f \<in> {electron_onCoreDownloadProgress, electron_onStatusUpdate, singbox_onOutput,
                singbox_onExit, electron_onCoreVersionUpdate, electron_onProfilesChanged,
                logs_onLogMessage, logs_onActivityLog}"
  shows "\<exists>c a. last (listeners (subscribe_then_unsubscribe f callback r)) =
                 (c, Arrow_fn (arrows r) a callback)"
  using assms
  by (auto simp: subscribe_then_unsubscribe_def ipc_defs Let_def split_def
      listeners_removeListener remove_last_append_other split: jsval.splits)

lemma remove_last_absent: "x \<notin> set xs \<Longrightarrow> remove_last x xs = xs"
  by (simp add: remove_last_def remove1_idem)

lemma only_arrows_no_page_fn: "only_arrows ls \<Longrightarrow> (c, Page_fn n) \<notin> set ls"
  by (auto simp: only_arrows_def list_all_iff)

lemma removeListener_no_removal:
  "only_arrows (listeners r) \<Longrightarrow> listeners (snd (ipcRenderer_removeListener c v r)) = listeners r"
  by (cases v) (simp_all add: remove_last_absent only_arrows_no_page_fn)

lemma call_listeners:
  assumes "only_arrows (listeners r)"
  shows "\<exists>new. listeners (snd (call f args r)) = listeners r @ new \<and> only_arrows new"
  using assms
  by (cases f) (simp_all add: ipc_defs Let_def split_def removeListener_no_removal only_arrows_def)

lemma call_returned_listeners:
  assumes "only_arrows (listeners r)"
  shows "listeners (snd (call_returned u r)) = listeners r"
proof (cases u)
  case (Remove_listener_fn c v)
  then show ?thesis using assms by (simp add: removeListener_no_removal)
next
  case (Profiles_unlisten_fn v)
  have "only_arrows (listeners (ipcRenderer_send ''profiles-changed-unlisten'' [] r))"
    using assms by (simp add: ipcRenderer_send_def)
  from removeListener_no_removal [OF this] show ?thesis
    using Profiles_unlisten_fn by (simp add: split_def Let_def ipcRenderer_send_def)
qed

lemma page_step_listeners:
  assumes "only_arrows (listeners r)"
  shows "\<exists>new. listeners (page_step a r) = listeners r @ new \<and> only_arrows new"
proof (cases a)
  case (Call f args)
  then show ?thesis using call_listeners [OF assms, of f args] by simp
next
  case (Call_returned i)
  then show ?thesis using call_returned_listeners [OF assms] by (simp add: only_arrows_def)
qed

lemma page_run_listeners:
  "only_arrows (listeners r) \<Longrightarrow>
   \<exists>new. listeners (page_run as r) = listeners r @ new \<and> only_arrows new"
proof (induction as arbitrary: r)
  case Nil
  then show ?case by (simp add: only_arrows_def)
next
  case (Cons a as)
  from page_step_listeners [OF Cons.prems, of a] obtain n1
    where n1: "listeners (page_step a r) = listeners r @ n1" "only_arrows n1" by blast
  then have "only_arrows (listeners (page_step a r))"
    using Cons.prems by (simp add: only_arrows_def)
  from Cons.IH [OF this] obtain n2
    where n2: "listeners (page_run as (page_step a r)) = listeners (page_step a r) @ n2"
      "only_arrows n2" by blast
  from n1 n2 have "listeners (page_run (a # as) r) = listeners r @ (n1 @ n2)"
    "only_arrows (n1 @ n2)" by (simp_all add: only_arrows_def)
  then show ?case by blast
qed

lemma page_run_append: "page_run (as @ bs) r = page_run bs (page_run as r)"
  by (induction as arbitrary: r) simp_all

text \<open>
  Whatever the page does, from the first state on, no listener is ever removed: the
  listener list only grows.
\<close>

lemma listeners_only_grow:
  "\<exists>new. listeners (page_run (as @ bs) renderer0) = listeners (page_run as renderer0) @ new"
proof -
  have "only_arrows (listeners renderer0)" by (simp add: renderer0_def only_arrows_def)
  from page_run_listeners [OF this, of as] have "only_arrows (listeners (page_run as renderer0))"
    by (auto simp: renderer0_def only_arrows_def)
  from page_run_listeners [OF this, of bs] show ?thesis
    by (auto simp: page_run_append)
qed

lemma unsubscribe_leaves:
  "listeners (subscribe_then_unsubscribe electron_onCoreDownloadProgress (JFun n) renderer0) =
     [(''core-download-progress'', Arrow_fn 0 Pass_first (JFun n))]"
  "listeners (subscribe_then_unsubscribe electron_onStatusUpdate (JFun n) renderer0) =
     [(''status-update'', Arrow_fn 0 Pass_first (JFun n))]"
  "listeners (subscribe_then_unsubscribe singbox_onOutput (JFun n) renderer0) =
     [(''singbox-output'', Arrow_fn 0 Pass_first (JFun n))]"
  "listeners (subscribe_then_unsubscribe singbox_onExit (JFun n) renderer0) =
     [(''singbox-exit'', Arrow_fn 0 Pass_first (JFun n))]"
  "listeners (subscribe_then_unsubscribe electron_onCoreVersionUpdate (JFun n) renderer0) =
     [(''core-version-update'', Arrow_fn 0 Pass_first (JFun n))]"
  "listeners (subscribe_then_unsubscribe electron_onProfilesChanged (JFun n) renderer0) =
     [(''profiles-changed'', Arrow_fn 0 Pass_none (JFun n))]"
  "listeners (subscribe_then_unsubscribe logs_onLogMessage (JFun n) renderer0) =
     [(''log-message'', Arrow_fn 0 Pass_first (JFun n))]"
  "listeners (subscribe_then_unsubscribe logs_onActivityLog (JFun n) renderer0) =
     [(''activity-log'', Arrow_fn 0 Pass_first (JFun n))]"
  by (simp_all add: subscribe_then_unsubscribe_def ipc_defs Let_def renderer0_def
      remove_last_def)

lemma emit_single:
  "listeners r = [(c, Arrow_fn k Pass_first (JFun n))] \<Longrightarrow>
     ipcRenderer_emit c ev [d] r = [Invoked n [d]]"
  "listeners r = [(c, Arrow_fn k Pass_none (JFun n))] \<Longrightarrow>
     ipcRenderer_emit c ev [d] r = [Invoked n []]"
  by (simp_all add: ipcRenderer_emit_def listeners_on_def)

text \<open>
  C9 (what the code does, against the claim). On a renderer with no listeners the page
  subscribes the function \<open>JFun n\<close> with each of the eight functions and calls the
  function it was given back. The listener list is not empty again: it still holds the
  arrow function of the subscription, because \<open>removeListener\<close> was given the callback
  and not that arrow. A message that arrives afterwards still invokes the callback.
\<close>

theorem unsubscribe_leaves_listener:
  "listeners (subscribe_then_unsubscribe electron_onCoreDownloadProgress (JFun n) renderer0) =
     [(''core-download-progress'', Arrow_fn 0 Pass_first (JFun n))]
   \<and> listeners (subscribe_then_unsubscribe electron_onStatusUpdate (JFun n) renderer0) =
     [(''status-update'', Arrow_fn 0 Pass_first (JFun n))]
   \<and> listeners (subscribe_then_unsubscribe singbox_onOutput (JFun n) renderer0) =
     [(''singbox-output'', Arrow_fn 0 Pass_first (JFun n))]
   \<and> listeners (subscribe_then_unsubscribe singbox_onExit (JFun n) renderer0) =
     [(''singbox-exit'', Arrow_fn 0 Pass_first (JFun n))]
   \<and> listeners (subscribe_then_unsubscribe electron_onCoreVersionUpdate (JFun n) renderer0) =
     [(''core-version-update'', Arrow_fn 0 Pass_first (JFun n))]
   \<and> listeners (subscribe_then_unsubscribe electron_onProfilesChanged (JFun n) renderer0) =
     [(''profiles-changed'', Arrow_fn 0 Pass_none (JFun n))]
   \<and> listeners (subscribe_then_unsubscribe logs_onLogMessage (JFun n) renderer0) =
     [(''log-message'', Arrow_fn 0 Pass_first (JFun n))]
   \<and> listeners (subscribe_then_unsubscribe logs_onActivityLog (JFun n) renderer0) =
     [(''activity-log'', Arrow_fn 0 Pass_first (JFun n))]
   \<and> listeners renderer0 = []
   \<and> ipcRenderer_emit ''core-download-progress'' ev [d]
       (subscribe_then_unsubscribe electron_onCoreDownloadProgress (JFun n) renderer0) =
       [Invoked n [d]]
   \<and> ipcRenderer_emit ''status-update'' ev [d]
       (subscribe_then_unsubscribe electron_onStatusUpdate (JFun n) renderer0) = [Invoked n [d]]
   \<and> ipcRenderer_emit ''singbox-output'' ev [d]
       (subscribe_then_unsubscribe singbox_onOutput (JFun n) renderer0) = [Invoked n [d]]
   \<and> ipcRenderer_emit ''singbox-exit'' ev [d]
       (subscribe_then_unsubscribe singbox_onExit (JFun n) renderer0) = [Invoked n [d]]
   \<and> ipcRenderer_emit ''core-version-update'' ev [d]
       (subscribe_then_unsubscribe electron_onCoreVersionUpdate (JFun n) renderer0) =
       [Invoked n [d]]
   \<and> ipcRenderer_emit ''profiles-changed'' ev [d]
       (subscribe_then_unsubscribe electron_onProfilesChanged (JFun n) renderer0) = [Invoked n []]
   \<and> ipcRenderer_emit ''log-message'' ev [d]
       (subscribe_then_unsubscribe logs_onLogMessage (JFun n) renderer0) = [Invoked n [d]]
   \<and> ipcRenderer_emit ''activity-log'' ev [d]
       (subscribe_then_unsubscribe logs_onActivityLog (JFun n) renderer0) = [Invoked n [d]]"
  by (intro conjI unsubscribe_leaves emit_single (1) [OF unsubscribe_leaves(1)]
      emit_single (1) [OF unsubscribe_leaves(2)] emit_single (1) [OF unsubscribe_leaves(3)]
      emit_single (1) [OF unsubscribe_leaves(4)] emit_single (1) [OF unsubscribe_leaves(5)]
      emit_single (2) [OF unsubscribe_leaves(6)] emit_single (1) [OF unsubscribe_leaves(7)]
      emit_single (1) [OF unsubscribe_leaves(8)]) (simp add: renderer0_def)

subsection \<open>The functions for profiles\<close>

lemma profile_invokes:
  "call electron_renameProfile args r =
     (Ret_promise, r\<lparr>trace := trace r @ [Invoke ''renameProfile'' [param0 args]]\<rparr>)"
  "call electron_deleteProfile args r =
     (Ret_promise, r\<lparr>trace := trace r @ [Invoke ''deleteProfile'' [param0 args]]\<rparr>)"
  "call electron_exportProfile args r =
     (Ret_promise, r\<lparr>trace := trace r @ [Invoke ''exportProfile'' [param0 args]]\<rparr>)"
  by (simp_all add: ipcRenderer_invoke_def)

lemma profiles_changed_subscription:
  "call electron_onProfilesChanged args r =
     (Ret_function (Profiles_unlisten_fn (param0 args)),
      r\<lparr>listeners := listeners r @
             [(''profiles-changed'', Arrow_fn (arrows r) Pass_none (param0 args))],
        arrows := Suc (arrows r),
        trace := trace r @
          [Send ''profiles-changed-listen'' [],
           On ''profiles-changed'' (Arrow_fn (arrows r) Pass_none (param0 args))],
        handed := handed r @ [Profiles_unlisten_fn (param0 args)]\<rparr>)"
  by (simp add: ipc_defs Let_def)

lemma profiles_changed_unlisten:
  "trace (snd (call_returned (Profiles_unlisten_fn callback) r)) =
     trace r @ [Send ''profiles-changed-unlisten'' [], RemoveListener ''profiles-changed'' callback]"
  by (simp add: ipc_defs Let_def split_def trace_removeListener)

lemma profiles_changed_delivery:
  "ipcRenderer_emit ''profiles-changed'' ev as
     (snd (call electron_onProfilesChanged [JFun n] renderer0)) = [Invoked n []]"
  by (simp add: ipc_defs Let_def ipcRenderer_emit_def listeners_on_def renderer0_def)

section \<open>Properties of the window module\<close>

subsection \<open>\<open>createWindow\<close> and single occurrences\<close>

lemma wiredD:
  "wired st \<Longrightarrow> \<exists>w. mainWindow st = Some w
     \<and> window_on w = [(''will-resize'', L_will_resize), (''resize'', L_resize), (''close'', L_close)]
     \<and> webContents_on w =
              [(''did-fail-load'', L_did_fail_load_1), (''did-fail-load'', L_did_fail_load_2),
               (''did-finish-load'', L_did_finish_load),
               (''before-input-event'', L_before_input_event)]
     \<and> ipcMain_on st =
              [(''window-minimize'', L_window_minimize), (''window-close'', L_window_close),
               (''window-maximize'', L_window_maximize)]"
  by (auto simp: wired_def split: option.splits)

lemma new_BrowserWindow_sel:
  "destroyed (new_BrowserWindow opts) = False"
  "loads (new_BrowserWindow opts) = []"
  "window_on (new_BrowserWindow opts) = []"
  "webContents_on (new_BrowserWindow opts) = []"
  by (simp_all add: new_BrowserWindow_def)

lemma loadAppContent_live:
  "mainWindow st = Some w \<Longrightarrow> \<not> destroyed w \<Longrightarrow>
   loadAppContent env st = Done (st\<lparr>mainWindow := Some (w\<lparr>loads := loads w @ [first_load env]\<rparr>)\<rparr>)"
  by (simp add: loadAppContent_def deref_def first_load_def loadURL_def loadFile_def)

lemma createWindow_eq:
  "createWindow env st =
     Done (st\<lparr>mainWindow :=
               Some ((new_BrowserWindow window_options)
                     \<lparr>minimumWidth := 800, minimumHeight := 600, loads := [first_load env],
                      window_on := [(''will-resize'', L_will_resize), (''resize'', L_resize), (''close'', L_close)],
                      webContents_on :=
                        [(''did-fail-load'', L_did_fail_load_1), (''did-fail-load'', L_did_fail_load_2),
                         (''did-finish-load'', L_did_finish_load),
                         (''before-input-event'', L_before_input_event)]\<rparr>),
             ipcMain_on := ipcMain_on st @
                 [(''window-minimize'', L_window_minimize), (''window-close'', L_window_close),
                  (''window-maximize'', L_window_maximize)],
             onHeadersReceived := (if isDev env then Some Csp_rewrite else onHeadersReceived st),
             external := external st @ [Logger_setMainWindow, Singbox_setMainWindow, Singbox_setMainWindow]\<rparr>)"
proof (cases "isDev env")
  case True
  then show ?thesis
    unfolding createWindow_def Let_def
    by (simp add: loadAppContent_live new_BrowserWindow_sel on_mainWindow_def ext_def
        setMinimumSize_def on_window_def on_webContents_def ipcMain_on_channel_def)
next
  case False
  then show ?thesis
    unfolding createWindow_def Let_def
    by (simp add: loadAppContent_live new_BrowserWindow_sel on_mainWindow_def ext_def
        setMinimumSize_def on_window_def on_webContents_def ipcMain_on_channel_def)
qed

lemma initial_sel: "ipcMain_on (initial q) = []" "isQuitting (initial q) = q"
  "onHeadersReceived (initial q) = None" "external (initial q) = []" "mainWindow (initial q) = None"
  by (simp_all add: initial_def)

lemma created_wired: "wired (created env q)"
  by (simp add: created_def createWindow_eq wired_def initial_sel)

lemma created_globals:
  "isQuitting (created env q) = q"
  "onHeadersReceived (created env q) = (if isDev env then Some Csp_rewrite else None)"
  by (simp_all add: created_def createWindow_eq initial_sel)

lemma created_window:
  "\<exists>w. mainWindow (created env q) = Some w \<and> \<not> destroyed w \<and> \<not> visible w
      \<and> width w = 1080 \<and> height w = 780 \<and> minimumWidth w = 800 \<and> minimumHeight w = 600
      \<and> constructed_with w = window_options"
  by (simp add: created_def createWindow_eq new_BrowserWindow_def window_options_def)

lemma registered_window:
  "registered ''will-resize'' [(''will-resize'', L_will_resize), (''resize'', L_resize), (''close'', L_close)] = [L_will_resize]"
  "registered ''resize'' [(''will-resize'', L_will_resize), (''resize'', L_resize), (''close'', L_close)] = [L_resize]"
  "registered ''close'' [(''will-resize'', L_will_resize), (''resize'', L_resize), (''close'', L_close)] = [L_close]"
  by (simp_all add: registered_def)

lemma registered_webContents:
  "registered ''did-fail-load'' [(''did-fail-load'', L_did_fail_load_1), (''did-fail-load'', L_did_fail_load_2),
               (''did-finish-load'', L_did_finish_load),
               (''before-input-event'', L_before_input_event)] = [L_did_fail_load_1, L_did_fail_load_2]"
  "registered ''did-finish-load'' [(''did-fail-load'', L_did_fail_load_1), (''did-fail-load'', L_did_fail_load_2),
               (''did-finish-load'', L_did_finish_load),
               (''before-input-event'', L_before_input_event)] = [L_did_finish_load]"
  "registered ''before-input-event'' [(''did-fail-load'', L_did_fail_load_1), (''did-fail-load'', L_did_fail_load_2),
               (''did-finish-load'', L_did_finish_load),
               (''before-input-event'', L_before_input_event)] = [L_before_input_event]"
  by (simp_all add: registered_def)

lemma registered_ipcMain:
  "registered c [(''window-minimize'', L_window_minimize), (''window-close'', L_window_close),
               (''window-maximize'', L_window_maximize)] =
     (if c = ''window-minimize'' then [L_window_minimize]
      else if c = ''window-close'' then [L_window_close]
      else if c = ''window-maximize'' then [L_window_maximize] else [])"
  by (simp add: registered_def)

lemma step_ipc:
  assumes "wired st"
  shows "step env (Ipc_message c) st =
     (if c = ''window-minimize'' then on_window_minimize st
      else if c = ''window-close'' then on_window_close st
      else if c = ''window-maximize'' then on_window_maximize st else Done st)"
proof -
  from wiredD [OF assms] obtain w where w: "mainWindow st = Some w"
    and i: "ipcMain_on st = [(''window-minimize'', L_window_minimize), (''window-close'', L_window_close),
               (''window-maximize'', L_window_maximize)]" by blast
  show ?thesis using w
    by (simp add: i registered_ipcMain on_window_minimize_def on_window_close_def
        on_window_maximize_def)
qed

lemma step_close_requested:
  assumes "wired st" "mainWindow st = Some w" "\<not> destroyed w"
  shows "step env Close_requested st =
     (if \<not> truthy (isQuitting st) then Done (st\<lparr>mainWindow := Some (hide w)\<rparr>)
      else Done (st\<lparr>mainWindow := Some (w\<lparr>destroyed := True\<rparr>)\<rparr>))"
proof -
  from wiredD [OF assms(1)] assms(2) have r: "window_on w = [(''will-resize'', L_will_resize), (''resize'', L_resize), (''close'', L_close)]"
    by auto
  show ?thesis using assms(2,3)
    by (simp add: deref_def r registered_window on_close_def preventDefault_def event0_def on_mainWindow_def)
qed

lemma step_user_resize:
  assumes "wired st" "mainWindow st = Some w" "\<not> destroyed w"
  shows "step env (User_resize x y) st =
     (if x < 800 \<or> y < 600 then Done st
      else Done (st\<lparr>mainWindow := Some (w\<lparr>width := x, height := y\<rparr>)\<rparr>))"
proof -
  from wiredD [OF assms(1)] assms(2) have r: "window_on w = [(''will-resize'', L_will_resize), (''resize'', L_resize), (''close'', L_close)]"
    by auto
  show ?thesis using assms(2,3)
    by (simp add: deref_def r registered_window on_will_resize_def preventDefault_def event0_def
        resized_def on_resize_def getSize_def)
qed

lemma step_resized:
  assumes "wired st" "mainWindow st = Some w" "\<not> destroyed w"
  shows "step env (Resized x y) st =
      Done (st\<lparr>mainWindow := Some (w\<lparr>width := max x 800, height := max y 600\<rparr>)\<rparr>)"
proof -
  from wiredD [OF assms(1)] assms(2) have r: "window_on w = [(''will-resize'', L_will_resize), (''resize'', L_resize), (''close'', L_close)]"
    by auto
  show ?thesis using assms(2,3)
    by (simp add: deref_def r registered_window resized_def on_resize_def getSize_def setSize_def max_def)
qed

lemma wired_window_on:
  "wired st \<Longrightarrow> mainWindow st = Some w \<Longrightarrow>
   window_on w = [(''will-resize'', L_will_resize), (''resize'', L_resize), (''close'', L_close)]"
  by (auto dest: wiredD)

lemma wired_webContents_on:
  "wired st \<Longrightarrow> mainWindow st = Some w \<Longrightarrow>
   webContents_on w =
     [(''did-fail-load'', L_did_fail_load_1), (''did-fail-load'', L_did_fail_load_2),
      (''did-finish-load'', L_did_finish_load), (''before-input-event'', L_before_input_event)]"
  by (auto dest: wiredD)

lemma step_load_failed:
  assumes "wired st" "mainWindow st = Some w" "\<not> destroyed w"
  shows "step env (Load_failed c d) st =
     Done (st\<lparr>external := external st @
                 [Logger_error_page_load c d, SetTimeout_loadAppContent 1000,
                  SetTimeout_loadAppContent 1000],
             timers := Suc (Suc (timers st))\<rparr>)"
  using assms(2,3)
  by (simp add: deref_def wired_webContents_on [OF assms(1,2)] registered_webContents
      on_did_fail_load_1_def on_did_fail_load_2_def setTimeout_loadAppContent_def ext_def)

lemma on_did_finish_load_live:
  assumes "mainWindow st = Some w" "\<not> destroyed w"
  shows "on_did_finish_load v st =
     Done (st\<lparr>external := external st @
                  [Logger_info ''Page loaded successfully'', ProfileManager_scanProfileConfig],
             mainWindow :=
               Some ((if truthy v then webContents_send ''profile-data'' v else (\<lambda>x. x))
                      (if \<not> isVisible w then show_window w else w))\<rparr>)"
  using assms by (simp add: on_did_finish_load_def Let_def deref_def ext_def)

lemma step_load_finished:
  assumes "wired st" "mainWindow st = Some w" "\<not> destroyed w"
  shows "step env (Load_finished v) st = on_did_finish_load v st"
  using assms(2,3)
  by (simp add: deref_def wired_webContents_on [OF assms(1,2)] registered_webContents
      on_did_finish_load_live [OF assms(2,3)])

lemma step_input:
  assumes "wired st" "mainWindow st = Some w" "\<not> destroyed w"
  shows "step env (Input k c) st =
     (if k = ''F12'' \<or> (c \<and> (k = ''i'' \<or> k = ''I''))
      then Done (st\<lparr>mainWindow := Some (w\<lparr>devToolsOpened := \<not> devToolsOpened w\<rparr>)\<rparr>)
      else Done st)"
  using assms(2,3)
  by (auto simp: deref_def wired_webContents_on [OF assms(1,2)] registered_webContents
      on_before_input_event_def openDevTools_def closeDevTools_def preventDefault_def)

lemma step_timeout:
  assumes "mainWindow st = Some w" "\<not> destroyed w"
  shows "step env Timeout st =
     (if timers st = 0 then Done st
      else Done (st\<lparr>timers := timers st - 1,
                    mainWindow := Some (w\<lparr>loads := loads w @ [first_load env]\<rparr>)\<rparr>))"
  using assms by (simp add: loadAppContent_live)

text \<open>With the window destroyed, only a timer still does something.\<close>

lemma step_dead:
  assumes "wired st" "mainWindow st = Some w" "destroyed w"
  shows "step env oc st = Done st
       \<or> step env oc st = Uncaught (st\<lparr>timers := timers st - 1\<rparr>)
       \<or> step env oc st =
           Uncaught (st\<lparr>timers := timers st - 1,
                        external := external st @ [Logger_error_html_load]\<rparr>)"
proof (cases oc)
  case (Ipc_message c)
  then show ?thesis using assms(2,3)
    by (simp del: step.simps add: step_ipc [OF assms(1)] on_window_minimize_def
        on_window_close_def on_window_maximize_def isDestroyed_def)
next
  case Timeout
  then show ?thesis using assms(2,3)
    by (simp add: loadAppContent_def deref_def ext_def)
qed (use assms(2,3) in \<open>simp_all add: deref_def resized_def\<close>)

lemma steadyI:
  "mainWindow st' = Some w' \<Longrightarrow> window_on w' = window_on w \<Longrightarrow> webContents_on w' = webContents_on w
   \<Longrightarrow> 800 \<le> width w' \<Longrightarrow> 600 \<le> height w' \<Longrightarrow> ipcMain_on st' = ipcMain_on st
   \<Longrightarrow> isQuitting st' = isQuitting st \<Longrightarrow> onHeadersReceived st' = onHeadersReceived st
   \<Longrightarrow> mainWindow st = Some w \<Longrightarrow> steady q h st \<Longrightarrow> steady q h st'"
  by (simp add: steady_def wired_def big_enough_def)

lemma step_steady:
  assumes "steady q h st"
  shows "steady q h (state_of (step env oc st))"
proof -
  from assms have wd: "wired st" by (simp add: steady_def)
  then obtain w where w: "mainWindow st = Some w" by (auto dest: wiredD)
  from assms w have sz: "800 \<le> width w" "600 \<le> height w"
    by (simp_all add: steady_def big_enough_def)
  note I = steadyI [where st = st and w = w and q = q and h = h, OF _ _ _ _ _ _ _ _ w assms]
  show ?thesis
  proof (cases "destroyed w")
    case True
    from step_dead [OF wd w True, of env oc] show ?thesis
      by (elim disjE) (auto intro!: I simp: w sz)
  next
    case False
    note live = wd w False
    show ?thesis
    proof (cases oc)
      case (Ipc_message c)
      show ?thesis unfolding Ipc_message step_ipc [OF wd]
        by (auto intro!: I simp: w sz False on_window_minimize_def on_window_close_def
            on_window_maximize_def isDestroyed_def isMaximized_def minimize_def maximize_def
            unmaximize_def hide_def)
    next
      case (User_resize x y)
      show ?thesis unfolding User_resize step_user_resize [OF live]
        by (auto intro!: I simp: w sz)
    next
      case (Resized x y)
      show ?thesis unfolding Resized step_resized [OF live]
        by (auto intro!: I simp: w)
    next
      case Close_requested
      show ?thesis unfolding Close_requested step_close_requested [OF live]
        by (auto intro!: I simp: w sz hide_def)
    next
      case (Load_failed c d)
      show ?thesis unfolding Load_failed step_load_failed [OF live]
        by (auto intro!: I simp: w sz)
    next
      case (Load_finished v)
      show ?thesis unfolding Load_finished step_load_finished [OF live]
          on_did_finish_load_live [OF w False]
        by (auto intro!: I simp: w sz isVisible_def show_window_def webContents_send_def)
    next
      case (Input k c)
      show ?thesis unfolding Input step_input [OF live]
        by (auto intro!: I simp: w sz)
    next
      case Timeout
      show ?thesis unfolding Timeout step_timeout [OF w False]
        by (auto intro!: I simp: w sz)
    qed
  qed
qed

lemma run_steady: "steady q h st \<Longrightarrow> steady q h (state_of (run env ocs st))"
proof (induction ocs arbitrary: st)
  case Nil
  then show ?case by simp
next
  case (Cons oc ocs)
  from step_steady [OF Cons.prems, of env oc] Cons.IH show ?case
    by (cases "step env oc st") simp_all
qed

lemma created_steady: "steady q (if isDev env then Some Csp_rewrite else None) (created env q)"
  using created_window [of env q]
  by (auto simp: steady_def created_wired created_globals big_enough_def)

lemma reached_steady: "steady q (if isDev env then Some Csp_rewrite else None) (reached env q ocs)"
  unfolding reached_def by (rule run_steady [OF created_steady])

lemma step_alive:
  assumes "wired st" "alive st" "\<not> truthy (isQuitting st)"
  shows "completed (step env oc st) \<and> alive (state_of (step env oc st))"
proof -
  from assms(2) obtain w where w: "mainWindow st = Some w" and nd: "\<not> destroyed w"
    by (auto simp: alive_def split: option.splits)
  note live = assms(1) w nd
  show ?thesis
  proof (cases oc)
    case (Ipc_message c)
    show ?thesis unfolding Ipc_message step_ipc [OF assms(1)]
      by (simp add: w nd alive_def on_window_minimize_def on_window_close_def
          on_window_maximize_def isDestroyed_def isMaximized_def minimize_def maximize_def
          unmaximize_def hide_def)
  next
    case (User_resize x y)
    show ?thesis unfolding User_resize step_user_resize [OF live]
      by (simp add: w nd alive_def)
  next
    case (Resized x y)
    show ?thesis unfolding Resized step_resized [OF live]
      by (simp add: w nd alive_def)
  next
    case Close_requested
    show ?thesis unfolding Close_requested step_close_requested [OF live]
      by (simp add: w nd alive_def assms(3) hide_def)
  next
    case (Load_failed c d)
    show ?thesis unfolding Load_failed step_load_failed [OF live]
      by (simp add: w nd alive_def)
  next
    case (Load_finished v)
    show ?thesis unfolding Load_finished step_load_finished [OF live]
        on_did_finish_load_live [OF w nd]
      by (simp add: w nd alive_def isVisible_def show_window_def webContents_send_def)
  next
    case (Input k c)
    show ?thesis unfolding Input step_input [OF live]
      by (simp add: w nd alive_def)
  next
    case Timeout
    show ?thesis unfolding Timeout step_timeout [OF w nd]
      by (simp add: w nd alive_def)
  qed
qed

lemma run_alive:
  assumes "\<not> truthy q"
  shows "steady q h st \<Longrightarrow> alive st \<Longrightarrow>
         completed (run env ocs st) \<and> alive (state_of (run env ocs st))"
proof (induction ocs arbitrary: st)
  case Nil
  then show ?case by simp
next
  case (Cons oc ocs)
  from Cons.prems have wd: "wired st" and iq: "isQuitting st = q" by (simp_all add: steady_def)
  from step_alive [OF wd Cons.prems(2), of env oc] assms iq
  have c: "completed (step env oc st)" and a: "alive (state_of (step env oc st))" by simp_all
  from c obtain s1 where s1: "step env oc st = Done s1" by (cases "step env oc st") simp_all
  from step_steady [OF Cons.prems(1), of env oc] s1 have "steady q h s1" by simp
  moreover from a s1 have "alive s1" by simp
  ultimately show ?case using Cons.IH [of s1] s1 by simp
qed

lemma created_alive: "alive (created env q)"
  using created_window [of env q] by (auto simp: alive_def)

lemma reached_alive:
  "\<not> truthy q \<Longrightarrow> completed (run env ocs (created env q)) \<and> alive (reached env q ocs)"
  unfolding reached_def by (rule run_alive [OF _ created_steady created_alive])

lemma fresh_window_state_sel:
  "mainWindow (fresh_window_state q) = Some (new_BrowserWindow window_options)"
  "isQuitting (fresh_window_state q) = q"
  "external (fresh_window_state q) = []"
  by (simp_all add: fresh_window_state_def initial_def)

lemma reached_Nil: "reached env q [] = created env q"
  by (simp add: reached_def)

subsection \<open>Window controls\<close>

lemma controls_live:
  assumes "mainWindow st = Some w" "\<not> destroyed w"
  shows "on_window_minimize st = Done (st\<lparr>mainWindow := Some (minimize w)\<rparr>)"
    and "on_window_maximize st =
           Done (st\<lparr>mainWindow := Some (if maximized w then unmaximize w else maximize w)\<rparr>)"
    and "on_window_close st = Done (st\<lparr>mainWindow := Some (hide w)\<rparr>)"
  using assms
  by (simp_all add: on_window_minimize_def on_window_maximize_def on_window_close_def
      isDestroyed_def isMaximized_def)


lemma reached_wired: "wired (reached env q ocs)"
  using reached_steady [of q env ocs] by (simp add: steady_def)










subsection \<open>The header rewrite\<close>

text \<open>
  C6. The listener answers with the response headers it was given (none when
  \<open>details.responseHeaders\<close> is absent) in which the entry \<open>Content-Security-Policy\<close>
  is the one policy of the source; every entry under another name is as it was. The
  listener is installed by \<open>createWindow\<close> exactly when \<open>NODE_ENV\<close> is \<open>development\<close>,
  and that stays so in every state reached afterwards.
\<close>

theorem csp_header_rewrite:
  "(k \<noteq> ''Content-Security-Policy'' \<longrightarrow>
      response_responseHeaders (headers_received_listener d) k = spread (responseHeaders d) k)
   \<and> response_responseHeaders (headers_received_listener d) ''Content-Security-Policy'' =
       Some [csp_policy]
   \<and> (onHeadersReceived (created env q) = Some Csp_rewrite) = (NODE_ENV env = Some ''development'')
   \<and> (onHeadersReceived (created env q) = None) = (NODE_ENV env \<noteq> Some ''development'')
   \<and> onHeadersReceived (reached env q ocs) = onHeadersReceived (created env q)"
proof (intro conjI impI)
  assume "k \<noteq> ''Content-Security-Policy''"
  then show "response_responseHeaders (headers_received_listener d) k =
               spread (responseHeaders d) k"
    by (simp add: headers_received_listener_def)
next
  show "response_responseHeaders (headers_received_listener d) ''Content-Security-Policy'' =
          Some [csp_policy]"
    by (simp add: headers_received_listener_def)
  show "(onHeadersReceived (created env q) = Some Csp_rewrite) =
          (NODE_ENV env = Some ''development'')"
    by (simp add: created_globals isDev_def)
  show "(onHeadersReceived (created env q) = None) = (NODE_ENV env \<noteq> Some ''development'')"
    by (simp add: created_globals isDev_def)
  show "onHeadersReceived (reached env q ocs) = onHeadersReceived (created env q)"
    using reached_steady [of q env ocs] by (simp add: steady_def created_globals)
qed

theorem csp_header_rewrite_witness:
  "''Content-Type'' \<noteq> ''Content-Security-Policy''
   \<and> response_responseHeaders
        (headers_received_listener
          \<lparr>url = ''http://localhost:3000/'',
           responseHeaders =
             Some [''Content-Type'' \<mapsto> [''text/html''],
                   ''Content-Security-Policy'' \<mapsto> [''default-src *'']]\<rparr>)
        ''Content-Type'' = Some [''text/html'']
   \<and> response_responseHeaders
        (headers_received_listener
          \<lparr>url = ''http://localhost:3000/'',
           responseHeaders =
             Some [''Content-Type'' \<mapsto> [''text/html''],
                   ''Content-Security-Policy'' \<mapsto> [''default-src *'']]\<rparr>)
        ''Content-Security-Policy'' = Some [csp_policy]
   \<and> onHeadersReceived (created env_development JUndefined) = Some Csp_rewrite
   \<and> onHeadersReceived (created env_production JUndefined) = None"
  using csp_header_rewrite [of "''Content-Type''"
      "\<lparr>url = ''http://localhost:3000/'',
        responseHeaders =
          Some [''Content-Type'' \<mapsto> [''text/html''],
                ''Content-Security-Policy'' \<mapsto> [''default-src *'']]\<rparr>"
      env_development JUndefined "[]"]
    csp_header_rewrite [of "''Content-Type''"
      "\<lparr>url = ''http://localhost:3000/'',
        responseHeaders =
          Some [''Content-Type'' \<mapsto> [''text/html''],
                ''Content-Security-Policy'' \<mapsto> [''default-src *'']]\<rparr>"
      env_production JUndefined "[]"]
  by (simp add: env_development_def env_production_def spread_def)

subsection \<open>Close requests\<close>

lemma on_close_not_quitting:
  assumes "\<not> truthy (isQuitting st)" "mainWindow st = Some w" "\<not> destroyed w"
  shows "on_close ev st = (preventDefault ev, Done (st\<lparr>mainWindow := Some (hide w)\<rparr>))"
  using assms by (simp add: on_close_def deref_def)

lemma aliveD: "alive st \<Longrightarrow> \<exists>w. mainWindow st = Some w \<and> \<not> destroyed w"
  by (auto simp: alive_def split: option.splits)

lemma close_steps:
  assumes "wired st" "alive st" "\<not> truthy (isQuitting st)"
  shows "step env (Ipc_message ''window-close'') st = Done (on_mainWindow hide st)"
    and "step env Close_requested st = Done (on_mainWindow hide st)"
    and "alive (on_mainWindow hide st)"
proof -
  from aliveD [OF assms(2)] obtain w where w: "mainWindow st = Some w" "\<not> destroyed w"
    by blast
  show "step env (Ipc_message ''window-close'') st = Done (on_mainWindow hide st)"
    by (simp del: step.simps add: step_ipc [OF assms(1)] controls_live(3) [OF w]
        on_mainWindow_def w)
  show "step env Close_requested st = Done (on_mainWindow hide st)"
    by (simp del: step.simps add: step_close_requested [OF assms(1) w] assms(3)
        on_mainWindow_def w)
  show "alive (on_mainWindow hide st)"
    using w by (simp add: alive_def on_mainWindow_def hide_def)
qed

text \<open>
  C7. While \<open>global.isQuitting\<close> is falsy (\<open>false\<close>, or never set) and \<open>mainWindow\<close>
  holds a live window: the listener of the \<open>window-close\<close> message hides the window;
  the listener of the window's \<open>close\<close> event prevents the default and hides the window;
  the hidden window is not destroyed. From \<open>createWindow\<close> on, with \<open>isQuitting\<close>
  falsy, every sequence of occurrences (close requests among them) runs without an
  exception and leaves the window alive; in each state so reached a \<open>window-close\<close>
  message and a close request both end in the same state with the window hidden and
  alive.
\<close>

theorem close_request_hides:
  "(\<not> truthy (isQuitting st) \<and> mainWindow st = Some w \<and> \<not> destroyed w \<longrightarrow>
      on_window_close st = Done (st\<lparr>mainWindow := Some (hide w)\<rparr>)
      \<and> on_close ev st = (preventDefault ev, Done (st\<lparr>mainWindow := Some (hide w)\<rparr>))
      \<and> defaultPrevented (preventDefault ev)
      \<and> \<not> visible (hide w) \<and> \<not> destroyed (hide w))
   \<and> (\<not> truthy q \<longrightarrow>
      completed (run env ocs (created env q))
      \<and> alive (reached env q ocs)
      \<and> isQuitting (reached env q ocs) = q
      \<and> step env (Ipc_message ''window-close'') (reached env q ocs) =
          Done (on_mainWindow hide (reached env q ocs))
      \<and> step env Close_requested (reached env q ocs) =
          Done (on_mainWindow hide (reached env q ocs))
      \<and> alive (on_mainWindow hide (reached env q ocs)))"
proof (intro conjI impI)
  assume "\<not> truthy (isQuitting st) \<and> mainWindow st = Some w \<and> \<not> destroyed w"
  then have h: "\<not> truthy (isQuitting st)" "mainWindow st = Some w" "\<not> destroyed w"
    by simp_all
  show "on_window_close st = Done (st\<lparr>mainWindow := Some (hide w)\<rparr>)"
    by (rule controls_live(3) [OF h(2,3)])
  show "on_close ev st = (preventDefault ev, Done (st\<lparr>mainWindow := Some (hide w)\<rparr>))"
    by (rule on_close_not_quitting [OF h])
  show "defaultPrevented (preventDefault ev)" by (simp add: preventDefault_def)
  show "\<not> visible (hide w)" by (simp add: hide_def)
  show "\<not> destroyed (hide w)" using h(3) by (simp add: hide_def)
next
  assume q: "\<not> truthy q"
  have iq: "isQuitting (reached env q ocs) = q"
    using reached_steady [of q env ocs] by (simp add: steady_def)
  from reached_alive [OF q, of env ocs]
  have c: "completed (run env ocs (created env q))" and a: "alive (reached env q ocs)"
    by simp_all
  from q iq have nq: "\<not> truthy (isQuitting (reached env q ocs))" by simp
  show "completed (run env ocs (created env q))" by (rule c)
  show "alive (reached env q ocs)" by (rule a)
  show "isQuitting (reached env q ocs) = q" by (rule iq)
  show "step env (Ipc_message ''window-close'') (reached env q ocs) =
          Done (on_mainWindow hide (reached env q ocs))"
    by (rule close_steps(1) [OF reached_wired a nq])
  show "step env Close_requested (reached env q ocs) =
          Done (on_mainWindow hide (reached env q ocs))"
    by (rule close_steps(2) [OF reached_wired a nq])
  show "alive (on_mainWindow hide (reached env q ocs))"
    by (rule close_steps(3) [OF reached_wired a nq])
qed

theorem close_request_hides_witness:
  "\<not> truthy (isQuitting (fresh_window_state (JBool False)))
   \<and> mainWindow (fresh_window_state (JBool False)) = Some (new_BrowserWindow window_options)
   \<and> \<not> destroyed (new_BrowserWindow window_options)
   \<and> on_window_close (fresh_window_state (JBool False)) =
       Done ((fresh_window_state (JBool False))
              \<lparr>mainWindow := Some (hide (new_BrowserWindow window_options))\<rparr>)
   \<and> on_close event0 (fresh_window_state (JBool False)) =
       (preventDefault event0,
        Done ((fresh_window_state (JBool False))
               \<lparr>mainWindow := Some (hide (new_BrowserWindow window_options))\<rparr>))
   \<and> \<not> truthy (JBool False)
   \<and> completed (run env_production [Close_requested, Ipc_message ''window-close'']
                  (created env_production (JBool False)))
   \<and> alive (reached env_production (JBool False) [Close_requested, Ipc_message ''window-close''])"
  using close_request_hides [of "fresh_window_state (JBool False)"
      "new_BrowserWindow window_options" event0 "JBool False" env_production
      "[Close_requested, Ipc_message ''window-close'']"]
  by (simp add: fresh_window_state_sel new_BrowserWindow_def)

subsection \<open>The minimum size\<close>

lemma on_resize_live:
  assumes "mainWindow st = Some w" "\<not> destroyed w"
  shows "on_resize st =
           (if width w < 800 \<or> height w < 600
            then Done (st\<lparr>mainWindow := Some (setSize (max (width w) 800) (max (height w) 600) w)\<rparr>)
            else Done st)"
  using assms by (simp add: on_resize_def deref_def getSize_def)

lemma on_resize_result:
  assumes "mainWindow st = Some w" "\<not> destroyed w"
  shows "\<exists>st' w'. on_resize st = Done st' \<and> mainWindow st' = Some w'
           \<and> 800 \<le> width w' \<and> 600 \<le> height w'"
  using assms by (auto simp: on_resize_live [OF assms] setSize_def)

lemma createWindow_result:
  "\<exists>s w. createWindow env st = Done s \<and> mainWindow s = Some w
      \<and> constructed_with w = window_options \<and> minimumWidth w = 800 \<and> minimumHeight w = 600
      \<and> width w = 1080 \<and> height w = 780"
  by (simp add: createWindow_eq new_BrowserWindow_def window_options_def)

lemma reached_big_enough:
  "\<exists>w. mainWindow (reached env q ocs) = Some w \<and> 800 \<le> width w \<and> 600 \<le> height w"
  using reached_steady [of q env ocs]
  by (auto simp: steady_def big_enough_def split: option.splits)

lemma small_resize_refused:
  assumes "x < 800 \<or> y < 600" "alive (reached env q ocs)"
  shows "step env (User_resize x y) (reached env q ocs) = Done (reached env q ocs)"
proof -
  from aliveD [OF assms(2)] obtain w
    where w: "mainWindow (reached env q ocs) = Some w" "\<not> destroyed w" by blast
  show ?thesis using assms(1)
    by (simp del: step.simps add: step_user_resize [OF reached_wired w])
qed

text \<open>
  C8. The options of the window give \<open>minWidth\<close> 800 and \<open>minHeight\<close> 600, and
  \<open>createWindow\<close> leaves a window built from them whose minimum size is 800 by 600 (set
  by the constructor and again by \<open>setMinimumSize\<close>) and whose size is 1080 by 780. The
  listener of \<open>will-resize\<close> prevents the default for bounds narrower than 800 or lower
  than 600, and only for those when nothing prevented it before. After the listener of
  \<open>resize\<close> has run on a live window, the width is at least 800 and the height at least
  600. In every state reached after \<open>createWindow\<close> the size is at least 800 by 600, and
  a resize by the user to smaller bounds changes nothing.
\<close>

theorem minimum_size_enforced:
  "opt_minWidth window_options = 800 \<and> opt_minHeight window_options = 600
   \<and> (\<exists>s w. createWindow env st0 = Done s \<and> mainWindow s = Some w
         \<and> constructed_with w = window_options \<and> minimumWidth w = 800 \<and> minimumHeight w = 600
         \<and> width w = 1080 \<and> height w = 780)
   \<and> defaultPrevented (on_will_resize ev x y) = (x < 800 \<or> y < 600 \<or> defaultPrevented ev)
   \<and> (mainWindow st = Some w \<and> \<not> destroyed w \<longrightarrow>
        (\<exists>st' w'. on_resize st = Done st' \<and> mainWindow st' = Some w'
            \<and> 800 \<le> width w' \<and> 600 \<le> height w'))
   \<and> (\<exists>w. mainWindow (reached env q ocs) = Some w \<and> 800 \<le> width w \<and> 600 \<le> height w)
   \<and> ((x < 800 \<or> y < 600) \<and> alive (reached env q ocs) \<longrightarrow>
        step env (User_resize x y) (reached env q ocs) = Done (reached env q ocs))"
proof (intro conjI impI)
  show "opt_minWidth window_options = 800" by (simp add: window_options_def)
  show "opt_minHeight window_options = 600" by (simp add: window_options_def)
  show "\<exists>s w. createWindow env st0 = Done s \<and> mainWindow s = Some w
         \<and> constructed_with w = window_options \<and> minimumWidth w = 800 \<and> minimumHeight w = 600
         \<and> width w = 1080 \<and> height w = 780"
    by (rule createWindow_result)
  show "defaultPrevented (on_will_resize ev x y) = (x < 800 \<or> y < 600 \<or> defaultPrevented ev)"
    by (auto simp: on_will_resize_def preventDefault_def)
  show "\<exists>w. mainWindow (reached env q ocs) = Some w \<and> 800 \<le> width w \<and> 600 \<le> height w"
    by (rule reached_big_enough)
next
  assume "mainWindow st = Some w \<and> \<not> destroyed w"
  then show "\<exists>st' w'. on_resize st = Done st' \<and> mainWindow st' = Some w'
            \<and> 800 \<le> width w' \<and> 600 \<le> height w'"
    using on_resize_result [of st w] by simp
next
  assume "(x < 800 \<or> y < 600) \<and> alive (reached env q ocs)"
  then show "step env (User_resize x y) (reached env q ocs) = Done (reached env q ocs)"
    using small_resize_refused [of x y env q ocs] by simp
qed

theorem minimum_size_enforced_witness:
  "mainWindow ((initial JUndefined)
       \<lparr>mainWindow := Some ((new_BrowserWindow window_options)\<lparr>width := 500, height := 400\<rparr>)\<rparr>) =
     Some ((new_BrowserWindow window_options)\<lparr>width := 500, height := 400\<rparr>)
   \<and> \<not> destroyed ((new_BrowserWindow window_options)\<lparr>width := 500, height := 400\<rparr>)
   \<and> (\<exists>st' w'. on_resize ((initial JUndefined)
          \<lparr>mainWindow := Some ((new_BrowserWindow window_options)\<lparr>width := 500, height := 400\<rparr>)\<rparr>) =
          Done st' \<and> mainWindow st' = Some w' \<and> 800 \<le> width w' \<and> 600 \<le> height w')
   \<and> on_resize ((initial JUndefined)
          \<lparr>mainWindow := Some ((new_BrowserWindow window_options)\<lparr>width := 500, height := 400\<rparr>)\<rparr>) =
        Done ((initial JUndefined)
          \<lparr>mainWindow := Some ((new_BrowserWindow window_options)\<lparr>width := 800, height := 600\<rparr>)\<rparr>)
   \<and> ((500::int) < 800 \<or> (400::int) < 600)
   \<and> alive (reached env_production JUndefined [])
   \<and> step env_production (User_resize 500 400) (reached env_production JUndefined []) =
       Done (reached env_production JUndefined [])"
  using minimum_size_enforced [of env_production "initial JUndefined" event0 500 400
      "(initial JUndefined)
         \<lparr>mainWindow := Some ((new_BrowserWindow window_options)\<lparr>width := 500, height := 400\<rparr>)\<rparr>"
      "(new_BrowserWindow window_options)\<lparr>width := 500, height := 400\<rparr>" JUndefined "[]"]
    created_alive [of env_production JUndefined]
  by (simp del: step.simps
      add: reached_Nil new_BrowserWindow_sel on_resize_def deref_def getSize_def setSize_def)

subsection \<open>Profiles\<close>

lemma on_did_finish_load_result:
  assumes "mainWindow st = Some w" "\<not> destroyed w"
  shows "\<exists>st' w'. on_did_finish_load v st = Done st' \<and> mainWindow st' = Some w'
           \<and> external st' = external st @
                [Logger_info ''Page loaded successfully'', ProfileManager_scanProfileConfig]
           \<and> sent w' = sent w @ (if truthy v then [(''profile-data'', v)] else [])"
  by (simp add: on_did_finish_load_live [OF assms] webContents_send_def isVisible_def
      show_window_def)

lemma load_finished_step:
  assumes "alive (reached env q ocs)"
  shows "step env (Load_finished v) (reached env q ocs) =
           on_did_finish_load v (reached env q ocs)"
proof -
  from aliveD [OF assms] obtain w
    where w: "mainWindow (reached env q ocs) = Some w" "\<not> destroyed w" by blast
  show ?thesis by (rule step_load_finished [OF reached_wired w])
qed

text \<open>
  C3. Scanning: on a live window the listener of \<open>did-finish-load\<close> calls
  \<open>profileManager.scanProfileConfig()\<close> and sends what it returned to the page on
  \<open>profile-data\<close> when that is truthy, and sends nothing when it is not; in every state
  reached after \<open>createWindow\<close> with the window alive, a finished load runs this
  listener. Renaming, deleting and exporting: the exposed functions invoke the channels
  \<open>renameProfile\<close>, \<open>deleteProfile\<close> and \<open>exportProfile\<close> with their argument. Change
  notification: \<open>onProfilesChanged\<close> sends \<open>profiles-changed-listen\<close> and adds a
  listener on \<open>profiles-changed\<close> that calls the callback without arguments; the
  function it returns sends \<open>profiles-changed-unlisten\<close> and then calls
  \<open>removeListener\<close> on \<open>profiles-changed\<close>.
\<close>

theorem profile_management_reachable:
  "(mainWindow st = Some w \<and> \<not> destroyed w \<longrightarrow>
      (\<exists>st' w'. on_did_finish_load v st = Done st' \<and> mainWindow st' = Some w'
          \<and> external st' = external st @
               [Logger_info ''Page loaded successfully'', ProfileManager_scanProfileConfig]
          \<and> sent w' = sent w @ (if truthy v then [(''profile-data'', v)] else [])))
   \<and> (alive (reached env q ocs) \<longrightarrow>
        step env (Load_finished v) (reached env q ocs) =
          on_did_finish_load v (reached env q ocs))
   \<and> call electron_renameProfile args r =
       (Ret_promise, r\<lparr>trace := trace r @ [Invoke ''renameProfile'' [param0 args]]\<rparr>)
   \<and> call electron_deleteProfile args r =
       (Ret_promise, r\<lparr>trace := trace r @ [Invoke ''deleteProfile'' [param0 args]]\<rparr>)
   \<and> call electron_exportProfile args r =
       (Ret_promise, r\<lparr>trace := trace r @ [Invoke ''exportProfile'' [param0 args]]\<rparr>)
   \<and> call electron_onProfilesChanged args r =
       (Ret_function (Profiles_unlisten_fn (param0 args)),
        r\<lparr>listeners := listeners r @
               [(''profiles-changed'', Arrow_fn (arrows r) Pass_none (param0 args))],
          arrows := Suc (arrows r),
          trace := trace r @
            [Send ''profiles-changed-listen'' [],
             On ''profiles-changed'' (Arrow_fn (arrows r) Pass_none (param0 args))],
          handed := handed r @ [Profiles_unlisten_fn (param0 args)]\<rparr>)
   \<and> ipcRenderer_emit ''profiles-changed'' e as
        (snd (call electron_onProfilesChanged [JFun n] renderer0)) = [Invoked n []]
   \<and> trace (snd (call_returned (Profiles_unlisten_fn callback) r)) =
       trace r @
         [Send ''profiles-changed-unlisten'' [], RemoveListener ''profiles-changed'' callback]"
proof (intro conjI impI)
  assume "mainWindow st = Some w \<and> \<not> destroyed w"
  then show "\<exists>st' w'. on_did_finish_load v st = Done st' \<and> mainWindow st' = Some w'
          \<and> external st' = external st @
               [Logger_info ''Page loaded successfully'', ProfileManager_scanProfileConfig]
          \<and> sent w' = sent w @ (if truthy v then [(''profile-data'', v)] else [])"
    using on_did_finish_load_result [of st w v] by simp
next
  assume "alive (reached env q ocs)"
  then show "step env (Load_finished v) (reached env q ocs) =
               on_did_finish_load v (reached env q ocs)"
    by (rule load_finished_step)
qed (rule profile_invokes profiles_changed_subscription profiles_changed_delivery
      profiles_changed_unlisten)+

theorem profile_management_reachable_witness:
  "mainWindow (fresh_window_state JUndefined) = Some (new_BrowserWindow window_options)
   \<and> \<not> destroyed (new_BrowserWindow window_options)
   \<and> (\<exists>st' w'. on_did_finish_load (JObj [(''profiles'', JArr [])]) (fresh_window_state JUndefined) =
          Done st' \<and> mainWindow st' = Some w'
        \<and> external st' =
             [Logger_info ''Page loaded successfully'', ProfileManager_scanProfileConfig]
        \<and> sent w' = [(''profile-data'', JObj [(''profiles'', JArr [])])])
   \<and> (\<exists>st' w'. on_did_finish_load JNull (fresh_window_state JUndefined) =
          Done st' \<and> mainWindow st' = Some w'
        \<and> external st' =
             [Logger_info ''Page loaded successfully'', ProfileManager_scanProfileConfig]
        \<and> sent w' = [])
   \<and> alive (reached env_production JUndefined [])
   \<and> step env_production (Load_finished JNull) (reached env_production JUndefined []) =
       on_did_finish_load JNull (reached env_production JUndefined [])"
  using profile_management_reachable [of "fresh_window_state JUndefined"
      "new_BrowserWindow window_options" "JObj [(''profiles'', JArr [])]"
      env_production JUndefined "[]"]
    profile_management_reachable [of "fresh_window_state JUndefined"
      "new_BrowserWindow window_options" JNull env_production JUndefined "[]"]
    created_alive [of env_production JUndefined]
  by (simp del: step.simps add: reached_Nil fresh_window_state_sel new_BrowserWindow_sel
      new_BrowserWindow_def)

end
